theory Spec2Isabelle
  imports Main "HOL-Library.List_Lexorder" "HOL-Library.Char_ord" "HOL-Library.Product_Lexorder"
    "HOL-Library.Word"
begin

section \<open>Strings\<close>

text \<open>
  Strings are byte strings: the UTF-8 text that travels between the Next.js gateway (the BFF)
  and the Laravel API. The helpers below are the string methods the sources call.
\<close>

definition startsWith :: "string \<Rightarrow> string \<Rightarrow> bool" where
  "startsWith s t = (take (length t) s = t)"

fun includes_str :: "string \<Rightarrow> string \<Rightarrow> bool" where
  "includes_str [] t = (t = [])"
| "includes_str (c # cs) t = (if startsWith (c # cs) t then True else includes_str cs t)"

fun join :: "string \<Rightarrow> string list \<Rightarrow> string" where
  "join sep [] = []"
| "join sep [x] = x"
| "join sep (x # y # ys) = x @ sep @ join sep (y # ys)"

section \<open>Errors (types.ts)\<close>

datatype BffErrorCode =
  INVALID_SIGNATURE | MISSING_HEADERS | TIMESTAMP_EXPIRED | INVALID_BFF_ID
  | UPSTREAM_ERROR | NETWORK_ERROR | TIMEOUT

text \<open>What a \<^verbatim>\<open>throw\<close> carries: a \<^verbatim>\<open>BffException\<close> with its code and message, or any other
  \<^verbatim>\<open>Error\<close> with its message.\<close>

datatype thrown = BffException BffErrorCode string | Error string

section \<open>JSON values\<close>

text \<open>
  The values \<^verbatim>\<open>JSON.parse\<close> yields and \<^verbatim>\<open>JSON.stringify\<close> prints. A number is an integer
  from -2^53 to 2^53 - 1, a signed word of 54 bits: each of them is a double that
  \<^verbatim>\<open>JSON.parse\<close> reads exactly and \<^verbatim>\<open>JSON.stringify\<close> prints in plain decimal, and an
  integer of PHP. The other numbers of JSON (fractions, exponents, greater magnitudes) are
  floating point values, which the two runtimes print each in its own way; the type does not
  hold them. An object is the list of its own properties in enumeration order
  (\<^verbatim>\<open>Object.keys\<close>).
\<close>

datatype json =
  JNull | JBool bool | JNum "54 word" | JStr string | JArr "json list"
  | JObj "(string \<times> json) list"

definition digit_char :: "nat \<Rightarrow> char" where
  "digit_char d = ''0123456789abcdef'' ! d"

text \<open>\<^verbatim>\<open>Number.prototype.toString\<close> (and PHP's integer to string conversion) on an integer.\<close>

fun dec :: "nat \<Rightarrow> string" where
  "dec n = (if n < 10 then [digit_char n] else dec (n div 10) @ [digit_char (n mod 10)])"

declare dec.simps [simp del]

definition show_int :: "int \<Rightarrow> string" where
  "show_int i = (if i < 0 then CHR ''-'' # dec (nat (- i)) else dec (nat i))"

text \<open>JavaScript's \<^verbatim>\<open>!value\<close>: the falsy values among the JSON values.\<close>

fun falsy :: "json \<Rightarrow> bool" where
  "falsy JNull = True"
| "falsy (JBool b) = (\<not> b)"
| "falsy (JNum n) = (n = 0)"
| "falsy (JStr s) = (s = [])"
| "falsy (JArr xs) = False"
| "falsy (JObj ps) = False"

subsection \<open>Property order of a JavaScript object\<close>

text \<open>
  An ordinary object enumerates its array-index keys first, in ascending numeric order, and
  then its other string keys in the order they were created. An array index is the canonical
  decimal form of an integer from 0 to 2^32 - 2.
\<close>

definition is_digit :: "char \<Rightarrow> bool" where
  "is_digit c = (48 \<le> (of_char c :: nat) \<and> (of_char c :: nat) \<le> 57)"

definition digits_value :: "string \<Rightarrow> nat" where
  "digits_value s = foldl (\<lambda>acc c. 10 * acc + ((of_char c :: nat) - 48)) 0 s"

definition array_index :: "string \<Rightarrow> nat option" where
  "array_index k =
     (if k \<noteq> [] \<and> list_all is_digit k \<and> (k = ''0'' \<or> hd k \<noteq> CHR ''0'')
         \<and> digits_value k \<le> 4294967294
      then Some (digits_value k) else None)"

text \<open>Where a new array-index key goes: before the first property that is not an array
  index or has a greater index.\<close>

fun insert_index :: "nat \<Rightarrow> string \<Rightarrow> json \<Rightarrow> (string \<times> json) list \<Rightarrow> (string \<times> json) list" where
  "insert_index i k v [] = [(k, v)]"
| "insert_index i k v (p # ps) =
     (case array_index (fst p) of
        None \<Rightarrow> (k, v) # p # ps
      | Some j \<Rightarrow> if i < j then (k, v) # p # ps else p # insert_index i k v ps)"

text \<open>Defining a property, as \<^verbatim>\<open>JSON.parse\<close> does for each member of an object: an existing
  property keeps its place and takes the new value; a new one is created.\<close>

definition obj_set :: "(string \<times> json) list \<Rightarrow> string \<Rightarrow> json \<Rightarrow> (string \<times> json) list" where
  "obj_set ps k v =
     (if k \<in> fst ` set ps then map (\<lambda>p. if fst p = k then (k, v) else p) ps
      else case array_index k of
             Some i \<Rightarrow> insert_index i k v ps
           | None \<Rightarrow> ps @ [(k, v)])"

text \<open>
  \<^verbatim>\<open>acc[key] = value\<close> on an object that began as \<^verbatim>\<open>{}\<close>. The name \<^verbatim>\<open>__proto__\<close> is an accessor
  of \<^verbatim>\<open>Object.prototype\<close>: assigning to it changes the prototype of the object, or does
  nothing, and creates no property. Every other name is defined as a property.
\<close>

definition obj_assign :: "(string \<times> json) list \<Rightarrow> string \<Rightarrow> json \<Rightarrow> (string \<times> json) list" where
  "obj_assign ps k v = (if k = ''__proto__'' then ps else obj_set ps k v)"

text \<open>\<^verbatim>\<open>obj[key]\<close> for a key of the object.\<close>

fun obj_get :: "(string \<times> json) list \<Rightarrow> string \<Rightarrow> json" where
  "obj_get [] k = JNull"
| "obj_get (p # ps) k = (if fst p = k then snd p else obj_get ps k)"

section \<open>The Canonical Encoder, signing side (hmac.ts)\<close>

text \<open>
  \<^verbatim>\<open>Array.prototype.sort\<close> with no comparator orders strings by their UTF-16 code units.
  \<^verbatim>\<open>utf16\<close> gives the code units of a UTF-8 text: a character of one, two or three bytes is
  one unit, its code point; a character of four bytes is a surrogate pair. (A byte that begins
  no character is taken as a unit by itself.) Two texts with the same code units, which valid
  UTF-8 texts never are unless they are equal, are ordered by their bytes, so that the order
  is total.
\<close>

definition utf8_len :: "char \<Rightarrow> nat" where
  "utf8_len a =
     (let n = (of_char a :: nat)
      in if n < 0xC0 then 1 else if n < 0xE0 then 2 else if n < 0xF0 then 3 else 4)"

fun code_units :: "nat list \<Rightarrow> nat list" where
  "code_units [a, b] = [(a - 0xC0) * 64 + (b - 0x80)]"
| "code_units [a, b, c] = [(a - 0xE0) * 4096 + (b - 0x80) * 64 + (c - 0x80)]"
| "code_units [a, b, c, d] =
     (let v = (a - 0xF0) * 262144 + (b - 0x80) * 4096 + (c - 0x80) * 64 + (d - 0x80) - 0x10000
      in [0xD800 + v div 1024, 0xDC00 + v mod 1024])"
| "code_units bs = bs"

function utf16 :: "string \<Rightarrow> nat list" where
  "utf16 [] = []"
| "utf16 (a # s) =
     code_units (map of_char (take (utf8_len a) (a # s))) @ utf16 (drop (utf8_len a) (a # s))"
  by pat_completeness auto
termination
  by (relation "measure length") (auto simp: utf8_len_def Let_def)

definition js_sort :: "string list \<Rightarrow> string list" where
  "js_sort keys = sort_key (\<lambda>k. (utf16 k, k)) keys"

text \<open>
  \<^verbatim>\<open>sortObjectKeys\<close>: \<^verbatim>\<open>Object.keys(obj).sort()\<close> orders the keys as strings, and the
  \<^verbatim>\<open>reduce\<close> assigns them in that order to a fresh object. The value assigned for a key is
  \<^verbatim>\<open>sortObjectKeys(obj[key])\<close>; the model computes these values for all properties first
  and looks them up by key.
\<close>

fun sortObjectKeys :: "json \<Rightarrow> json" where
  "sortObjectKeys JNull = JNull"
| "sortObjectKeys (JBool b) = JBool b"
| "sortObjectKeys (JNum n) = JNum n"
| "sortObjectKeys (JStr s) = JStr s"
| "sortObjectKeys (JArr xs) = JArr (map sortObjectKeys xs)"
| "sortObjectKeys (JObj ps) =
     (let vals = map (\<lambda>(k, v). (k, sortObjectKeys v)) ps
      in JObj (foldl (\<lambda>acc key. obj_assign acc key (obj_get vals key)) [] (js_sort (map fst ps))))"

text \<open>\<^verbatim>\<open>JSON.stringify\<close> with no indentation. \<^verbatim>\<open>QuoteJSONString\<close> escapes the quote, the
  backslash and the control characters, and nothing else.\<close>

definition js_escape_char :: "char \<Rightarrow> string" where
  "js_escape_char c =
     (let n = (of_char c :: nat) in
      if n = 34 then [CHR 0x5C, CHR 0x22]
      else if n = 92 then [CHR 0x5C, CHR 0x5C]
      else if n = 8 then [CHR 0x5C, CHR ''b'']
      else if n = 12 then [CHR 0x5C, CHR ''f'']
      else if n = 10 then [CHR 0x5C, CHR ''n'']
      else if n = 13 then [CHR 0x5C, CHR ''r'']
      else if n = 9 then [CHR 0x5C, CHR ''t'']
      else if n < 32 then [CHR 0x5C, CHR ''u'', CHR ''0'', CHR ''0'', digit_char (n div 16), digit_char (n mod 16)]
      else [c])"

definition QuoteJSONString :: "string \<Rightarrow> string" where
  "QuoteJSONString s = [CHR 0x22] @ concat (map js_escape_char s) @ [CHR 0x22]"

fun JSON_stringify :: "json \<Rightarrow> string" where
  "JSON_stringify JNull = ''null''"
| "JSON_stringify (JBool b) = (if b then ''true'' else ''false'')"
| "JSON_stringify (JNum n) = show_int (sint n)"
| "JSON_stringify (JStr s) = QuoteJSONString s"
| "JSON_stringify (JArr xs) = ''['' @ join '','' (map JSON_stringify xs) @ '']''"
| "JSON_stringify (JObj ps) =
     ''{'' @ join '','' (map (\<lambda>(k, v). QuoteJSONString k @ '':'' @ JSON_stringify v) ps) @ ''}''"

section \<open>PHP values\<close>

text \<open>
  A PHP array is an ordered map from integer and string keys to values. Integers are the
  64-bit integers of the platform.
\<close>

datatype php_key = KInt int | KStr string

datatype php = PNull | PBool bool | PInt int | PStr string | PArr "(php_key \<times> php) list"

fun is_array :: "php \<Rightarrow> bool" where
  "is_array (PArr arr) = True"
| "is_array v = False"

text \<open>\<^verbatim>\<open>empty($s)\<close> on a string: the empty string and the string of the digit zero.\<close>

definition php_empty :: "string \<Rightarrow> bool" where
  "php_empty s = (s = [] \<or> s = ''0'')"

text \<open>\<^verbatim>\<open>$arr[$k] = $v\<close>, also \<^verbatim>\<open>Headers.set\<close> and \<^verbatim>\<open>URLSearchParams.set\<close>: an existing key
  keeps its place, a new one goes last.\<close>

definition assoc_set :: "('k \<times> 'v) list \<Rightarrow> 'k \<Rightarrow> 'v \<Rightarrow> ('k \<times> 'v) list" where
  "assoc_set arr k v =
     (if k \<in> fst ` set arr then map (\<lambda>p. if fst p = k then (k, v) else p) arr
      else arr @ [(k, v)])"

text \<open>
  What \<^verbatim>\<open>json_decode($body, true)\<close> makes of a JSON value: objects and arrays both become
  PHP arrays. A key that is the canonical decimal form of a 64-bit integer becomes an integer
  key; an array gets the keys 0, 1, 2, ... A number of the model is an integer of PHP.
\<close>

definition php_array_key :: "string \<Rightarrow> php_key" where
  "php_array_key s =
     (let neg = (s \<noteq> [] \<and> hd s = CHR ''-'');
          ds = (if neg then tl s else s);
          v = (if neg then - int (digits_value ds) else int (digits_value ds))
      in if ds \<noteq> [] \<and> list_all is_digit ds
            \<and> (if hd ds = CHR ''0'' then ds = ''0'' \<and> \<not> neg else True)
            \<and> - 9223372036854775808 \<le> v \<and> v \<le> 9223372036854775807
         then KInt v else KStr s)"

definition list_keys :: "nat \<Rightarrow> php_key list" where
  "list_keys n = map (\<lambda>i. KInt (int i)) [0..<n]"

fun php_of_json :: "json \<Rightarrow> php" where
  "php_of_json JNull = PNull"
| "php_of_json (JBool b) = PBool b"
| "php_of_json (JNum n) = PInt (sint n)"
| "php_of_json (JStr s) = PStr s"
| "php_of_json (JArr xs) = PArr (zip (list_keys (length xs)) (map php_of_json xs))"
| "php_of_json (JObj ps) =
     PArr (foldl (\<lambda>acc p. assoc_set acc (php_array_key (fst p)) (snd p)) []
             (map (\<lambda>(k, v). (k, php_of_json v)) ps))"

section \<open>The platform\<close>

text \<open>
  The library functions both programs call are parameters of the model: the two digests
  (hex encoded), the JSON readers of JavaScript and of PHP, PHP's string to integer cast,
  the order \<^verbatim>\<open>ksort\<close> compares array keys by, the host of a parsed URL, whether the
  \<^verbatim>\<open>Response\<close> constructor accepts a status for a response with a body, and what
  \<^verbatim>\<open>cookies.set\<close> of a Next.js response makes of the headers of the response.
\<close>

text \<open>The arguments of \<^verbatim>\<open>cookies.set(name, value, options)\<close>. The expiry is a date, so many
  days after the date of the call.\<close>

record cookie =
  cookie_name :: string
  cookie_value :: json
  httpOnly :: bool
  secure :: bool
  sameSite :: string
  cookie_path :: string
  expires_in_days :: nat

record platform =
  sha256 :: "string \<Rightarrow> string"
  hmac_sha256 :: "string \<Rightarrow> string \<Rightarrow> string"
  JSON_parse :: "string \<Rightarrow> json option"
  json_decode :: "string \<Rightarrow> php"
  intval :: "string \<Rightarrow> int"
  key_le :: "php_key \<Rightarrow> php_key \<Rightarrow> bool"
  URL_host :: "string \<Rightarrow> string option \<Rightarrow> string option"
  Response_ok :: "nat \<Rightarrow> bool"
  cookies_set :: "(string \<times> string) list \<Rightarrow> cookie \<Rightarrow> (string \<times> string) list"

text \<open>
  \<^verbatim>\<open>hmac_sha256 P secret payload\<close> is \<^verbatim>\<open>createHmac('sha256', secret).update(payload).digest('hex')\<close>
  and \<^verbatim>\<open>hash_hmac('sha256', $payload, $secret)\<close>. \<^verbatim>\<open>JSON_parse\<close> is \<^verbatim>\<open>None\<close> where
  \<^verbatim>\<open>JSON.parse\<close> throws; \<^verbatim>\<open>json_decode\<close> is \<^verbatim>\<open>PNull\<close> where PHP's reader fails.
  \<^verbatim>\<open>URL_host P url base\<close> is the host of \<^verbatim>\<open>new URL(url, base)\<close>, \<^verbatim>\<open>None\<close> where the
  constructor throws. \<^verbatim>\<open>cookies_set P headers cookie\<close> is the header list of a response
  whose headers were \<^verbatim>\<open>headers\<close>, after \<^verbatim>\<open>response.cookies.set\<close> was called with the name,
  the value and the options of \<^verbatim>\<open>cookie\<close>: the cookie travels in the \<^verbatim>\<open>Set-Cookie\<close> lines, which
  the library writes anew.
\<close>

section \<open>The Signer (hmac.ts)\<close>

record process_env =
  BFF_HMAC_SECRET :: "string option"
  BFF_ID_env :: "string option"
  LARAVEL_API_URL_env :: "string option"
  NODE_ENV :: "string option"

text \<open>\<^verbatim>\<open>value || fallback\<close> on a string that may be undefined: the fallback when it is undefined
  or empty.\<close>

definition or_else :: "string option \<Rightarrow> string \<Rightarrow> string" where
  "or_else v fallback = (case v of None \<Rightarrow> fallback | Some s \<Rightarrow> if s = [] then fallback else s)"

definition BFF_SECRET :: "process_env \<Rightarrow> string" where
  "BFF_SECRET env = or_else (BFF_HMAC_SECRET env) []"

definition BFF_ID :: "process_env \<Rightarrow> string" where
  "BFF_ID env = or_else (BFF_ID_env env) ''nextjs-bff-prod''"

definition ensureHmacConfigured :: "process_env \<Rightarrow> thrown + unit" where
  "ensureHmacConfigured env =
     (if BFF_SECRET env = [] then Inl (Error ''BFF_HMAC_SECRET environment variable is not set'')
      else Inr ())"

text \<open>
  \<^verbatim>\<open>jsonString.replace(/\s/g, '')\<close> on UTF-8 text: the class \<^verbatim>\<open>\s\<close> holds the ASCII white
  space, U+00A0, U+1680, U+2000 to U+200A, U+2028, U+2029, U+202F, U+205F, U+3000 and
  U+FEFF.
\<close>

definition ws1 :: "char \<Rightarrow> bool" where
  "ws1 a = (a = CHR 0x09 \<or> a = CHR 0x0A \<or> a = CHR 0x0B \<or> a = CHR 0x0C \<or> a = CHR 0x0D \<or> a = CHR 0x20)"

definition ws2 :: "char \<Rightarrow> char \<Rightarrow> bool" where
  "ws2 a b = (a = CHR 0xC2 \<and> b = CHR 0xA0)"

definition ws3 :: "char \<Rightarrow> char \<Rightarrow> char \<Rightarrow> bool" where
  "ws3 a b c =
     ((a = CHR 0xE1 \<and> b = CHR 0x9A \<and> c = CHR 0x80)
      \<or> (a = CHR 0xE2 \<and> b = CHR 0x80 \<and> 128 \<le> (of_char c :: nat) \<and> (of_char c :: nat) \<le> 138)
      \<or> (a = CHR 0xE2 \<and> b = CHR 0x80 \<and> (c = CHR 0xA8 \<or> c = CHR 0xA9 \<or> c = CHR 0xAF))
      \<or> (a = CHR 0xE2 \<and> b = CHR 0x81 \<and> c = CHR 0x9F)
      \<or> (a = CHR 0xE3 \<and> b = CHR 0x80 \<and> c = CHR 0x80)
      \<or> (a = CHR 0xEF \<and> b = CHR 0xBB \<and> c = CHR 0xBF))"

fun remove_whitespace :: "string \<Rightarrow> string" where
  "remove_whitespace (a # b # c # s) =
     (if ws1 a then remove_whitespace (b # c # s)
      else if ws2 a b then remove_whitespace (c # s)
      else if ws3 a b c then remove_whitespace s
      else a # remove_whitespace (b # c # s))"
| "remove_whitespace [a, b] =
     (if ws1 a then remove_whitespace [b]
      else if ws2 a b then []
      else a # remove_whitespace [b])"
| "remove_whitespace [a] = (if ws1 a then [] else [a])"
| "remove_whitespace [] = []"

text \<open>\<^verbatim>\<open>hashBody\<close>. The body is \<^verbatim>\<open>None\<close> for \<^verbatim>\<open>undefined\<close>. The replacer passed to
  \<^verbatim>\<open>JSON.stringify\<close> returns every value as it is.\<close>

definition hashBody :: "platform \<Rightarrow> json option \<Rightarrow> string" where
  "hashBody P body =
     (case body of
        None \<Rightarrow> []
      | Some b \<Rightarrow>
          if falsy b then []
          else
            let normalized = sortObjectKeys b;
                jsonString = JSON_stringify normalized;
                compactJson = remove_whitespace jsonString
            in sha256 P compactJson)"

record HmacResult =
  X_BFF_Id :: string
  X_BFF_Timestamp :: string
  X_BFF_Signature :: string
  normalizedBody :: "string option"

text \<open>\<^verbatim>\<open>generateSignature\<close>; \<^verbatim>\<open>now\<close> is \<^verbatim>\<open>Date.now()\<close>, in milliseconds.\<close>

definition generateSignature ::
  "platform \<Rightarrow> process_env \<Rightarrow> nat \<Rightarrow> string \<Rightarrow> string \<Rightarrow> json option \<Rightarrow> thrown + HmacResult" where
  "generateSignature P env now method path body =
     (case ensureHmacConfigured env of
        Inl e \<Rightarrow> Inl e
      | Inr _ \<Rightarrow>
          let timestamp = dec (now div 1000);
              bodyHash = hashBody P body;
              payload = timestamp @ '':'' @ method @ '':'' @ path @ '':'' @ bodyHash;
              signature = hmac_sha256 P (BFF_SECRET env) payload
          in Inr \<lparr> X_BFF_Id = BFF_ID env,
                   X_BFF_Timestamp = timestamp,
                   X_BFF_Signature = signature,
                   normalizedBody =
                     (case body of
                        None \<Rightarrow> None
                      | Some b \<Rightarrow>
                          if b = JNull then None
                          else Some (JSON_stringify (sortObjectKeys b))) \<rparr>)"

definition buildLaravelPath :: "string \<Rightarrow> string" where
  "buildLaravelPath bffPath = bffPath"

section \<open>The Canonical Encoder, validating side (HmacValidator.php)\<close>

text \<open>\<^verbatim>\<open>ksort\<close>: a stable sort of the entries by key, under the platform's key order.\<close>

fun kinsert ::
  "(php_key \<Rightarrow> php_key \<Rightarrow> bool) \<Rightarrow> php_key \<times> php \<Rightarrow> (php_key \<times> php) list \<Rightarrow> (php_key \<times> php) list" where
  "kinsert le p [] = [p]"
| "kinsert le p (q # qs) = (if le (fst p) (fst q) then p # q # qs else q # kinsert le p qs)"

definition ksort ::
  "(php_key \<Rightarrow> php_key \<Rightarrow> bool) \<Rightarrow> (php_key \<times> php) list \<Rightarrow> (php_key \<times> php) list" where
  "ksort le arr = foldr (kinsert le) arr []"

lemma set_kinsert: "set (kinsert le p qs) = insert p (set qs)"
  by (induction qs) auto

lemma set_ksort: "set (ksort le arr) = set arr"
  by (induction arr) (simp_all add: ksort_def set_kinsert)

lemma size_php_member:
  "(k, v) \<in> set arr \<Longrightarrow> size v < Suc (size_list (size_prod (\<lambda>_. 0) size) arr)"
  by (induction arr) auto

text \<open>\<^verbatim>\<open>sortArrayKeys\<close>: \<^verbatim>\<open>ksort\<close>, then every value that is an array is replaced, under its
  key, by its sorted form. The code calls it on arrays only.\<close>

function sortArrayKeys :: "(php_key \<Rightarrow> php_key \<Rightarrow> bool) \<Rightarrow> php \<Rightarrow> php" where
  "sortArrayKeys le (PArr array) =
     PArr (map (\<lambda>(key, value). (key, if is_array value then sortArrayKeys le value else value))
             (ksort le array))"
| "sortArrayKeys le PNull = PNull"
| "sortArrayKeys le (PBool b) = PBool b"
| "sortArrayKeys le (PInt n) = PInt n"
| "sortArrayKeys le (PStr s) = PStr s"
  by pat_completeness auto
termination
  by (relation "measure (\<lambda>(le, v). size v)") (auto simp: set_ksort dest: size_php_member)

text \<open>
  \<^verbatim>\<open>json_encode($data, JSON_UNESCAPED_SLASHES | JSON_UNESCAPED_UNICODE)\<close>. An array whose
  keys are 0, 1, 2, ... in this order (the empty array too) prints as a JSON array, any other
  as an object. Strings keep the slash and the characters beyond ASCII, but U+2028 and U+2029
  are escaped.
\<close>

definition php_escape_char :: "char \<Rightarrow> string" where
  "php_escape_char c =
     (let n = (of_char c :: nat) in
      if n = 34 then [CHR 0x5C, CHR 0x22]
      else if n = 92 then [CHR 0x5C, CHR 0x5C]
      else if n = 8 then [CHR 0x5C, CHR ''b'']
      else if n = 12 then [CHR 0x5C, CHR ''f'']
      else if n = 10 then [CHR 0x5C, CHR ''n'']
      else if n = 13 then [CHR 0x5C, CHR ''r'']
      else if n = 9 then [CHR 0x5C, CHR ''t'']
      else if n < 32 then [CHR 0x5C, CHR ''u'', CHR ''0'', CHR ''0'', digit_char (n div 16), digit_char (n mod 16)]
      else [c])"

fun php_escape :: "string \<Rightarrow> string" where
  "php_escape (a # b # c # s) =
     (if a = CHR 0xE2 \<and> b = CHR 0x80 \<and> c = CHR 0xA8 then CHR 0x5C # ''u2028'' @ php_escape s
      else if a = CHR 0xE2 \<and> b = CHR 0x80 \<and> c = CHR 0xA9 then CHR 0x5C # ''u2029'' @ php_escape s
      else php_escape_char a @ php_escape (b # c # s))"
| "php_escape (a # s) = php_escape_char a @ php_escape s"
| "php_escape [] = []"

definition php_quote :: "string \<Rightarrow> string" where
  "php_quote s = [CHR 0x22] @ php_escape s @ [CHR 0x22]"

definition key_string :: "php_key \<Rightarrow> string" where
  "key_string k = (case k of KInt i \<Rightarrow> show_int i | KStr s \<Rightarrow> s)"

definition array_is_list :: "(php_key \<times> php) list \<Rightarrow> bool" where
  "array_is_list arr = (map fst arr = list_keys (length arr))"

fun json_encode :: "php \<Rightarrow> string" where
  "json_encode PNull = ''null''"
| "json_encode (PBool b) = (if b then ''true'' else ''false'')"
| "json_encode (PInt n) = show_int n"
| "json_encode (PStr s) = php_quote s"
| "json_encode (PArr arr) =
     (if array_is_list arr then ''['' @ join '','' (map (\<lambda>(k, v). json_encode v) arr) @ '']''
      else ''{'' @ join '','' (map (\<lambda>(k, v). php_quote (key_string k) @ '':'' @ json_encode v) arr) @ ''}'')"

section \<open>The Validator (HmacValidator.php)\<close>

text \<open>
  The request as the validator reads it: \<^verbatim>\<open>method()\<close>, \<^verbatim>\<open>path()\<close>, \<^verbatim>\<open>header(name)\<close> and
  \<^verbatim>\<open>getContent()\<close>; and the two configuration values, \<^verbatim>\<open>None\<close> when unset. The result
  is \<^verbatim>\<open>['valid' => true]\<close> or \<^verbatim>\<open>['valid' => false, 'error' => message]\<close>. The log entries
  the validator writes are not modelled.
\<close>

record request =
  req_method :: string
  req_path :: string
  req_headers :: "string \<Rightarrow> string option"
  req_content :: string

record services_bff =
  bff_id :: "string option"
  bff_secret :: "string option"

datatype validation = Valid | Invalid string

definition TIMESTAMP_TOLERANCE :: int where
  "TIMESTAMP_TOLERANCE = 300"

definition header :: "request \<Rightarrow> string \<Rightarrow> string option" where
  "header request name = req_headers request name"

definition hasHeader :: "request \<Rightarrow> string \<Rightarrow> bool" where
  "hasHeader request name = (header request name \<noteq> None)"

definition validateHeaders :: "request \<Rightarrow> validation" where
  "validateHeaders request =
     (let requiredHeaders = [''X-BFF-Id'', ''X-BFF-Timestamp'', ''X-BFF-Signature''];
          missingHeaders = filter (\<lambda>h. \<not> hasHeader request h) requiredHeaders
      in if missingHeaders \<noteq> [] then
           Invalid (''Missing required headers: '' @ join '', '' missingHeaders)
         else Valid)"

definition validateBffId :: "services_bff \<Rightarrow> request \<Rightarrow> validation" where
  "validateBffId cfg request =
     (if header request ''X-BFF-Id'' \<noteq> bff_id cfg then Invalid ''Invalid BFF ID'' else Valid)"

text \<open>\<^verbatim>\<open>(int) $request->header('X-BFF-Timestamp')\<close>; the cast of \<^verbatim>\<open>null\<close> is 0. \<^verbatim>\<open>now\<close> is
  \<^verbatim>\<open>now()->timestamp\<close>, in seconds.\<close>

definition validateTimestamp :: "platform \<Rightarrow> int \<Rightarrow> request \<Rightarrow> validation" where
  "validateTimestamp P now request =
     (let timestamp = (case header request ''X-BFF-Timestamp'' of None \<Rightarrow> 0 | Some s \<Rightarrow> intval P s);
          diff = \<bar>now - timestamp\<bar>
      in if diff > TIMESTAMP_TOLERANCE then Invalid ''Timestamp validation failed'' else Valid)"

definition hashBody_php :: "platform \<Rightarrow> request \<Rightarrow> string" where
  "hashBody_php P request =
     (let body = req_content request in
      if php_empty body then []
      else
        let data = json_decode P body
        in if is_array data then
             sha256 P (json_encode (sortArrayKeys (key_le P) data))
           else sha256 P body)"

text \<open>A \<^verbatim>\<open>null\<close> header interpolates as the empty string.\<close>

definition generatePayload :: "platform \<Rightarrow> request \<Rightarrow> string" where
  "generatePayload P request =
     (let timestamp = (case header request ''X-BFF-Timestamp'' of None \<Rightarrow> [] | Some s \<Rightarrow> s);
          method = req_method request;
          path = req_path request;
          bodyHash = hashBody_php P request
      in timestamp @ '':'' @ method @ '':'' @ path @ '':'' @ bodyHash)"

text \<open>\<^verbatim>\<open>hash_equals\<close> holds exactly when the two strings are equal. \<^verbatim>\<open>validate\<close> calls this
  stage only after \<^verbatim>\<open>validateHeaders\<close> has found the signature header.\<close>

definition validateSignature :: "platform \<Rightarrow> services_bff \<Rightarrow> request \<Rightarrow> string \<Rightarrow> validation" where
  "validateSignature P cfg request payload =
     (let providedSignature = header request ''X-BFF-Signature'' in
      case bff_secret cfg of
        None \<Rightarrow> Invalid ''BFF authentication misconfigured''
      | Some secret \<Rightarrow>
          if php_empty secret then Invalid ''BFF authentication misconfigured''
          else
            let expectedSignature = hmac_sha256 P secret payload
            in if providedSignature \<noteq> Some expectedSignature then Invalid ''Invalid signature''
               else Valid)"

definition validate :: "platform \<Rightarrow> services_bff \<Rightarrow> int \<Rightarrow> request \<Rightarrow> validation" where
  "validate P cfg now request =
     (let headersValidation = validateHeaders request in
      if headersValidation \<noteq> Valid then headersValidation
      else
        let bffValidation = validateBffId cfg request in
        if bffValidation \<noteq> Valid then bffValidation
        else
          let timestampValidation = validateTimestamp P now request in
          if timestampValidation \<noteq> Valid then timestampValidation
          else
            let payload = generatePayload P request
            in validateSignature P cfg request payload)"

section \<open>The Path Guard (route.ts)\<close>

text \<open>\<^verbatim>\<open>SAFE_PATH_SEGMENT = /^[a-zA-Z0-9_-]+$/\<close>, tested on a whole segment.\<close>

definition safe_char :: "char \<Rightarrow> bool" where
  "safe_char c =
     (let n = (of_char c :: nat)
      in (97 \<le> n \<and> n \<le> 122) \<or> (65 \<le> n \<and> n \<le> 90) \<or> (48 \<le> n \<and> n \<le> 57)
         \<or> c = CHR ''_'' \<or> c = CHR ''-'')"

definition SAFE_PATH_SEGMENT :: "string \<Rightarrow> bool" where
  "SAFE_PATH_SEGMENT s = (s \<noteq> [] \<and> list_all safe_char s)"

fun validatePathSegments :: "string list \<Rightarrow> thrown + unit" where
  "validatePathSegments [] = Inr ()"
| "validatePathSegments (segment # rest) =
     (if segment = [] then
        Inl (BffException INVALID_SIGNATURE ''Invalid path: empty segment'')
      else if segment = ''..'' \<or> segment = ''.'' then
        Inl (BffException INVALID_SIGNATURE ''Invalid path: traversal not allowed'')
      else if includes_str segment ''://'' \<or> startsWith segment ''//'' then
        Inl (BffException INVALID_SIGNATURE ''Invalid path: absolute URLs not allowed'')
      else if \<not> SAFE_PATH_SEGMENT segment then
        Inl (BffException INVALID_SIGNATURE ''Invalid path: forbidden characters'')
      else validatePathSegments rest)"

section \<open>The Proxy Forwarder (route.ts)\<close>

text \<open>
  The inbound request as \<^verbatim>\<open>proxyRequest\<close> reads it: its method, its content type, what
  \<^verbatim>\<open>clonedRequest.json()\<close> resolves to (\<^verbatim>\<open>None\<close> when it rejects), the cookie store and the
  query parameters. The upstream is a function from the arguments of \<^verbatim>\<open>fetch\<close> to its
  outcome; the body of an upstream response is the text \<^verbatim>\<open>response.text()\<close> resolves to.
  \<^verbatim>\<open>proxyRequest\<close> returns its response together with the list of upstream calls it made.
\<close>

record next_request =
  nr_method :: string
  nr_content_type :: "string option"
  nr_json :: "json option"
  nr_cookies :: "string \<Rightarrow> string option"
  nr_searchParams :: "(string \<times> string) list"

record fetch_request =
  fr_base :: string
  fr_path :: string
  fr_searchParams :: "(string \<times> string) list"
  fr_method :: string
  fr_headers :: "(string \<times> string) list"
  fr_body :: "string option"

record fetch_response =
  up_status :: nat
  up_statusText :: string
  up_headers :: "(string \<times> string) list"
  up_text :: string

text \<open>\<^verbatim>\<open>fetch\<close> resolves with a response, or rejects: with an \<^verbatim>\<open>AbortError\<close> when the
  30 second timer aborts it, with another error otherwise.\<close>

datatype fetch_outcome = Responded fetch_response | AbortError | OtherError string

datatype body = Json json | Text string

record next_response =
  res_status :: nat
  res_statusText :: string
  res_headers :: "(string \<times> string) list"
  res_body :: body

definition LARAVEL_API_URL :: "process_env \<Rightarrow> string" where
  "LARAVEL_API_URL env = or_else (LARAVEL_API_URL_env env) ''http://localhost:8000''"

definition BFF_TIMEOUT :: nat where
  "BFF_TIMEOUT = 30000"

definition code_string :: "BffErrorCode \<Rightarrow> string" where
  "code_string c =
     (case c of
        INVALID_SIGNATURE \<Rightarrow> ''INVALID_SIGNATURE''
      | MISSING_HEADERS \<Rightarrow> ''MISSING_HEADERS''
      | TIMESTAMP_EXPIRED \<Rightarrow> ''TIMESTAMP_EXPIRED''
      | INVALID_BFF_ID \<Rightarrow> ''INVALID_BFF_ID''
      | UPSTREAM_ERROR \<Rightarrow> ''UPSTREAM_ERROR''
      | NETWORK_ERROR \<Rightarrow> ''NETWORK_ERROR''
      | TIMEOUT \<Rightarrow> ''TIMEOUT'')"

text \<open>\<^verbatim>\<open>NextResponse.json(data, { status })\<close>.\<close>

definition NextResponse_json :: "json \<Rightarrow> nat \<Rightarrow> next_response" where
  "NextResponse_json data status =
     \<lparr> res_status = status, res_statusText = [],
       res_headers = [(''content-type'', ''application/json'')],
       res_body = Json data \<rparr>"

text \<open>The outer \<^verbatim>\<open>catch\<close> of \<^verbatim>\<open>proxyRequest\<close>.\<close>

definition catch_response :: "thrown \<Rightarrow> next_response" where
  "catch_response error =
     (case error of
        BffException code message \<Rightarrow>
          NextResponse_json (JObj [(''error'', JStr message), (''code'', JStr (code_string code))]) 500
      | Error message \<Rightarrow>
          NextResponse_json
            (JObj [(''error'', JStr ''Internal server error''),
                   (''message'', JStr ''Failed to proxy request'')]) 500)"

text \<open>The body for the signature: read only for a method other than GET and HEAD and a
  JSON content type; \<^verbatim>\<open>null\<close> otherwise, and when reading it fails.\<close>

definition read_body :: "next_request \<Rightarrow> json" where
  "read_body request =
     (if nr_method request \<noteq> ''GET'' \<and> nr_method request \<noteq> ''HEAD'' then
        (let contentType = or_else (nr_content_type request) [] in
         if includes_str contentType ''application/json'' then
           (case nr_json request of Some parsed \<Rightarrow> parsed | None \<Rightarrow> JNull)
         else JNull)
      else JNull)"

definition publicRoutes :: "string list" where
  "publicRoutes = [''api/v1/auth/login'', ''api/v1/auth/register'', ''api/v1/auth/providers'']"

definition isPublicRoute :: "string \<Rightarrow> bool" where
  "isPublicRoute laravelPath = list_ex (\<lambda>route. startsWith laravelPath route) publicRoutes"

text \<open>The headers copied from the upstream response: every header but \<^verbatim>\<open>set-cookie\<close> is
  set, then every \<^verbatim>\<open>set-cookie\<close> value is appended. \<^verbatim>\<open>up_headers\<close> lists the upstream's
  headers as \<^verbatim>\<open>forEach\<close> visits them, names in lower case.\<close>

definition relay_headers :: "(string \<times> string) list \<Rightarrow> (string \<times> string) list" where
  "relay_headers hs =
     (let setCookieHeaders = map snd (filter (\<lambda>h. fst h = ''set-cookie'') hs);
          responseHeaders =
            foldl (\<lambda>acc h. if fst h \<noteq> ''set-cookie'' then assoc_set acc (fst h) (snd h) else acc) [] hs
      in responseHeaders @ map (\<lambda>cookie. (''set-cookie'', cookie)) setCookieHeaders)"

text \<open>\<^verbatim>\<open>value[name]\<close> on a parsed JSON value, \<^verbatim>\<open>None\<close> for \<^verbatim>\<open>undefined\<close>; and
  \<^verbatim>\<open>jsonData.data?.access_token\<close>, where reading \<^verbatim>\<open>data\<close> of \<^verbatim>\<open>null\<close> throws into the
  empty \<^verbatim>\<open>catch\<close>.\<close>

fun get_prop :: "json \<Rightarrow> string \<Rightarrow> json option" where
  "get_prop (JObj ps) name = map_of ps name"
| "get_prop v name = None"

definition access_token :: "json \<Rightarrow> json option" where
  "access_token jsonData =
     (if jsonData = JNull then None
      else case get_prop jsonData ''data'' of
             None \<Rightarrow> None
           | Some d \<Rightarrow> get_prop d ''access_token'')"

text \<open>\<^verbatim>\<open>new NextResponse(responseData, { status, statusText, headers })\<close> on a string: the
  constructor of \<^verbatim>\<open>Response\<close> keeps the headers it is given and, when they hold no content
  type, adds the content type of a string body.\<close>

definition Response_headers :: "(string \<times> string) list \<Rightarrow> (string \<times> string) list" where
  "Response_headers headers =
     (if ''content-type'' \<in> fst ` set headers then headers
      else headers @ [(''content-type'', ''text/plain;charset=UTF-8'')])"

text \<open>The cookie of the token: the arguments of the one call of \<^verbatim>\<open>nextResponse.cookies.set\<close>.\<close>

definition auth_cookie :: "process_env \<Rightarrow> json \<Rightarrow> cookie" where
  "auth_cookie env token =
     \<lparr> cookie_name = ''auth_token'', cookie_value = token, httpOnly = True,
       secure = (NODE_ENV env = Some ''production''), sameSite = ''lax'',
       cookie_path = ''/'', expires_in_days = 15 \<rparr>"

text \<open>The response built from the upstream's. The token is tested for truth; only then is the
  cookie set.\<close>

definition relay :: "platform \<Rightarrow> process_env \<Rightarrow> fetch_response \<Rightarrow> next_response" where
  "relay P env response =
     (let responseHeaders = relay_headers (up_headers response);
          nextResponse =
            \<lparr> res_status = up_status response, res_statusText = up_statusText response,
              res_headers = Response_headers responseHeaders,
              res_body = Text (up_text response) \<rparr>
      in case JSON_parse P (up_text response) of
           None \<Rightarrow> nextResponse
         | Some jsonData \<Rightarrow>
             (case access_token jsonData of
                None \<Rightarrow> nextResponse
              | Some token \<Rightarrow>
                  if falsy token then nextResponse
                  else nextResponse
                         \<lparr> res_headers :=
                              cookies_set P (res_headers nextResponse) (auth_cookie env token) \<rparr>))"

definition send ::
  "platform \<Rightarrow> process_env \<Rightarrow> (fetch_request \<Rightarrow> fetch_outcome) \<Rightarrow> next_request \<Rightarrow> string \<Rightarrow> string
     \<Rightarrow> HmacResult \<Rightarrow> (string \<times> string) list \<Rightarrow> next_response \<times> fetch_request list" where
  "send P env fetch request method laravelPath hmacResult headers =
     (let options =
            \<lparr> fr_base = LARAVEL_API_URL env, fr_path = laravelPath,
              fr_searchParams =
                foldl (\<lambda>acc p. assoc_set acc (fst p) (snd p)) [] (nr_searchParams request),
              fr_method = method, fr_headers = headers, fr_body = normalizedBody hmacResult \<rparr>
      in case fetch options of
           AbortError \<Rightarrow> (catch_response (BffException TIMEOUT ''Request timeout''), [options])
         | OtherError message \<Rightarrow> (catch_response (Error message), [options])
         | Responded response \<Rightarrow>
             if \<not> Response_ok P (up_status response) then
               (catch_response (Error ''Invalid response status code''), [options])
             else (relay P env response, [options]))"

text \<open>The credential stage. \<^verbatim>\<open>authToken\<close> is the value of the \<^verbatim>\<open>auth_token\<close> cookie; the test
  \<^verbatim>\<open>if (authToken)\<close> fails when the cookie is absent and when its value is empty.\<close>

definition forward ::
  "platform \<Rightarrow> process_env \<Rightarrow> (fetch_request \<Rightarrow> fetch_outcome) \<Rightarrow> next_request \<Rightarrow> string \<Rightarrow> string
     \<Rightarrow> HmacResult \<Rightarrow> next_response \<times> fetch_request list" where
  "forward P env fetch request method laravelPath hmacResult =
     (let headers =
            [(''Content-Type'', ''application/json''), (''Accept'', ''application/json''),
             (''X-BFF-Id'', X_BFF_Id hmacResult),
             (''X-BFF-Timestamp'', X_BFF_Timestamp hmacResult),
             (''X-BFF-Signature'', X_BFF_Signature hmacResult)];
          authToken = or_else (nr_cookies request ''auth_token'') []
      in if authToken \<noteq> [] then
           send P env fetch request method laravelPath hmacResult
             (headers @ [(''Authorization'', ''Bearer '' @ authToken)])
         else if \<not> isPublicRoute laravelPath then
           (NextResponse_json
              (JObj [(''error'', JStr ''Unauthorized''), (''message'', JStr ''No auth token found'')])
              401, [])
         else send P env fetch request method laravelPath hmacResult headers)"

text \<open>\<^verbatim>\<open>proxyRequest\<close>; \<^verbatim>\<open>now\<close> is \<^verbatim>\<open>Date.now()\<close>. A \<^verbatim>\<open>URL\<close> constructor that throws, throws a
  \<^verbatim>\<open>TypeError\<close>.\<close>

definition proxyRequest ::
  "platform \<Rightarrow> process_env \<Rightarrow> nat \<Rightarrow> (fetch_request \<Rightarrow> fetch_outcome) \<Rightarrow> next_request \<Rightarrow> string
     \<Rightarrow> string list \<Rightarrow> next_response \<times> fetch_request list" where
  "proxyRequest P env now fetch request method pathSegments =
     (case validatePathSegments pathSegments of
        Inl error \<Rightarrow> (catch_response error, [])
      | Inr _ \<Rightarrow>
          let bffPath = ''/api/v1/'' @ join ''/'' pathSegments;
              laravelPath = (case buildLaravelPath bffPath of
                               c # cs \<Rightarrow> if c = CHR ''/'' then cs else c # cs
                             | [] \<Rightarrow> [])
          in case URL_host P laravelPath (Some (LARAVEL_API_URL env)) of
               None \<Rightarrow> (catch_response (Error ''Invalid URL''), [])
             | Some host \<Rightarrow>
                 (case URL_host P (LARAVEL_API_URL env) None of
                    None \<Rightarrow> (catch_response (Error ''Invalid URL''), [])
                  | Some expectedHost \<Rightarrow>
                      if host \<noteq> expectedHost then
                        (catch_response
                           (BffException INVALID_SIGNATURE ''Invalid request: host mismatch''), [])
                      else
                        let body = read_body request
                        in case generateSignature P env now method laravelPath (Some body) of
                             Inl error \<Rightarrow> (catch_response error, [])
                           | Inr hmacResult \<Rightarrow>
                               forward P env fetch request method laravelPath hmacResult))"

section \<open>A reference platform\<close>

text \<open>
  One platform to run the model on concrete requests. Its digests are symbolic: they keep the
  text they were computed from, so two of them are equal only when their inputs are. Its JSON
  reader reads null, true, false, the integers from -2^53 to 2^53 - 1, strings, arrays and
  objects, and no other text (no fractions, no exponents, no \<^verbatim>\<open>\u\<close> escapes). Its key order compares integer keys as
  numbers and every other pair of keys as strings, which is the order of \<^verbatim>\<open>ksort\<close> when no
  string key is numeric. Its \<^verbatim>\<open>Response\<close> constructor is the Fetch standard's: a status from
  200 to 599 that is not a null body status. Its \<^verbatim>\<open>cookies.set\<close> is symbolic too: it takes
  away the \<^verbatim>\<open>Set-Cookie\<close> lines of the cookie's name and adds one line that keeps the name
  and the value, and none of the attributes.
\<close>

definition ref_sha256 :: "string \<Rightarrow> string" where
  "ref_sha256 s = ''sha256('' @ s @ '')''"

definition ref_hmac_sha256 :: "string \<Rightarrow> string \<Rightarrow> string" where
  "ref_hmac_sha256 secret payload = ''hmac('' @ secret @ '','' @ payload @ '')''"

fun skip_ws :: "string \<Rightarrow> string" where
  "skip_ws [] = []"
| "skip_ws (c # cs) =
     (if c = CHR 0x20 \<or> c = CHR 0x09 \<or> c = CHR 0x0A \<or> c = CHR 0x0D then skip_ws cs else c # cs)"

definition unescape :: "char \<Rightarrow> char option" where
  "unescape e =
     (if e = CHR 0x22 \<or> e = CHR 0x5C \<or> e = CHR ''/'' then Some e
      else if e = CHR ''b'' then Some (CHR 0x08)
      else if e = CHR ''f'' then Some (CHR 0x0C)
      else if e = CHR ''n'' then Some (CHR 0x0A)
      else if e = CHR ''r'' then Some (CHR 0x0D)
      else if e = CHR ''t'' then Some (CHR 0x09)
      else None)"

text \<open>The rest of a string literal, after its opening quote.\<close>

fun read_string :: "string \<Rightarrow> string \<Rightarrow> (string \<times> string) option" where
  "read_string acc [] = None"
| "read_string acc [c] = (if c = CHR 0x22 then Some (rev acc, []) else None)"
| "read_string acc (c # e # cs) =
     (if c = CHR 0x22 then Some (rev acc, e # cs)
      else if c = CHR 0x5C then
        (case unescape e of None \<Rightarrow> None | Some u \<Rightarrow> read_string (u # acc) cs)
      else if (of_char c :: nat) < 32 then None
      else read_string (c # acc) (e # cs))"

definition read_number :: "string \<Rightarrow> (json \<times> string) option" where
  "read_number s =
     (let neg = (s \<noteq> [] \<and> hd s = CHR ''-'');
          t = (if neg then tl s else s);
          ds = takeWhile is_digit t;
          r = dropWhile is_digit t;
          v = (if neg then - int (digits_value ds) else int (digits_value ds))
      in if ds = [] \<or> (hd ds = CHR ''0'' \<and> ds \<noteq> ''0'') then None
         else if r \<noteq> [] \<and> (hd r = CHR ''.'' \<or> hd r = CHR ''e'' \<or> hd r = CHR ''E'') then None
         else if v < - 9007199254740992 \<or> 9007199254740991 < v then None
         else Some (JNum (word_of_int v), r))"

fun read_value :: "nat \<Rightarrow> string \<Rightarrow> (json \<times> string) option"
  and read_elements :: "nat \<Rightarrow> string \<Rightarrow> (json list \<times> string) option"
  and read_members :: "nat \<Rightarrow> string \<Rightarrow> ((string \<times> json) list \<times> string) option" where
  "read_value 0 s = None"
| "read_value (Suc n) s =
     (case skip_ws s of
        [] \<Rightarrow> None
      | c # cs \<Rightarrow>
          if c = CHR ''{'' then
            (case skip_ws cs of
               [] \<Rightarrow> None
             | d # ds \<Rightarrow>
                 if d = CHR ''}'' then Some (JObj [], ds)
                 else map_option (\<lambda>(ms, r). (JObj ms, r)) (read_members n (d # ds)))
          else if c = CHR ''['' then
            (case skip_ws cs of
               [] \<Rightarrow> None
             | d # ds \<Rightarrow>
                 if d = CHR '']'' then Some (JArr [], ds)
                 else map_option (\<lambda>(vs, r). (JArr vs, r)) (read_elements n (d # ds)))
          else if c = CHR 0x22 then map_option (\<lambda>(str, r). (JStr str, r)) (read_string [] cs)
          else if startsWith (c # cs) ''null'' then Some (JNull, drop 4 (c # cs))
          else if startsWith (c # cs) ''true'' then Some (JBool True, drop 4 (c # cs))
          else if startsWith (c # cs) ''false'' then Some (JBool False, drop 5 (c # cs))
          else read_number (c # cs))"
| "read_elements 0 s = None"
| "read_elements (Suc n) s =
     (case read_value n s of
        None \<Rightarrow> None
      | Some (v, r) \<Rightarrow>
          (case skip_ws r of
             [] \<Rightarrow> None
           | c # cs \<Rightarrow>
               if c = CHR '','' then map_option (\<lambda>(vs, r'). (v # vs, r')) (read_elements n cs)
               else if c = CHR '']'' then Some ([v], cs)
               else None))"
| "read_members 0 s = None"
| "read_members (Suc n) s =
     (case skip_ws s of
        [] \<Rightarrow> None
      | c # cs \<Rightarrow>
          if c \<noteq> CHR 0x22 then None
          else
            (case read_string [] cs of
               None \<Rightarrow> None
             | Some (k, r) \<Rightarrow>
                 (case skip_ws r of
                    [] \<Rightarrow> None
                  | c1 # r1 \<Rightarrow>
                      if c1 \<noteq> CHR '':'' then None
                      else
                        (case read_value n r1 of
                           None \<Rightarrow> None
                         | Some (v, r2) \<Rightarrow>
                             (case skip_ws r2 of
                                [] \<Rightarrow> None
                              | c2 # r3 \<Rightarrow>
                                  if c2 = CHR '','' then
                                    map_option (\<lambda>(ms, r4). ((k, v) # ms, r4)) (read_members n r3)
                                  else if c2 = CHR ''}'' then Some ([(k, v)], r3)
                                  else None)))))"

text \<open>A whole text: one value, with the members of its objects in the order of the text. The
  fuel, the length of the text, is never used up.\<close>

definition read_json :: "string \<Rightarrow> json option" where
  "read_json s =
     (case read_value (Suc (length s)) s of
        None \<Rightarrow> None
      | Some (v, r) \<Rightarrow> if skip_ws r = [] then Some v else None)"

text \<open>\<^verbatim>\<open>JSON.parse\<close> creates the properties of an object in the order of the text.\<close>

fun js_value :: "json \<Rightarrow> json" where
  "js_value (JArr xs) = JArr (map js_value xs)"
| "js_value (JObj ps) =
     JObj (foldl (\<lambda>acc p. obj_set acc (fst p) (snd p)) [] (map (\<lambda>(k, v). (k, js_value v)) ps))"
| "js_value v = v"

definition ref_JSON_parse :: "string \<Rightarrow> json option" where
  "ref_JSON_parse s = map_option js_value (read_json s)"

definition ref_json_decode :: "string \<Rightarrow> php" where
  "ref_json_decode s = (case read_json s of None \<Rightarrow> PNull | Some v \<Rightarrow> php_of_json v)"

definition ref_intval :: "string \<Rightarrow> int" where
  "ref_intval s = (if s \<noteq> [] \<and> list_all is_digit s then int (digits_value s) else 0)"

definition ref_key_le :: "php_key \<Rightarrow> php_key \<Rightarrow> bool" where
  "ref_key_le a b =
     (case (a, b) of
        (KInt i, KInt j) \<Rightarrow> i \<le> j
      | _ \<Rightarrow> key_string a \<le> key_string b)"

text \<open>The host of an absolute URL: what stands between \<^verbatim>\<open>://\<close> and the next slash. A URL
  with no scheme takes the host of its base.\<close>

fun after_scheme :: "string \<Rightarrow> string option" where
  "after_scheme [] = None"
| "after_scheme (c # cs) = (if startsWith (c # cs) ''://'' then Some (drop 3 (c # cs)) else after_scheme cs)"

definition host_of :: "string \<Rightarrow> string option" where
  "host_of url = map_option (takeWhile (\<lambda>c. c \<noteq> CHR ''/'')) (after_scheme url)"

definition ref_URL_host :: "string \<Rightarrow> string option \<Rightarrow> string option" where
  "ref_URL_host url base =
     (if includes_str url ''://'' then host_of url
      else case base of None \<Rightarrow> None | Some b \<Rightarrow> host_of b)"

definition ref_Response_ok :: "nat \<Rightarrow> bool" where
  "ref_Response_ok status =
     (200 \<le> status \<and> status \<le> 599 \<and> status \<noteq> 204 \<and> status \<noteq> 205 \<and> status \<noteq> 304)"

definition ref_cookies_set :: "(string \<times> string) list \<Rightarrow> cookie \<Rightarrow> (string \<times> string) list" where
  "ref_cookies_set headers c =
     filter (\<lambda>h. \<not> (fst h = ''set-cookie'' \<and> startsWith (snd h) (cookie_name c @ ''=''))) headers
     @ [(''set-cookie'', cookie_name c @ ''='' @ JSON_stringify (cookie_value c))]"

definition reference :: platform where
  "reference =
     \<lparr> sha256 = ref_sha256, hmac_sha256 = ref_hmac_sha256, JSON_parse = ref_JSON_parse,
       json_decode = ref_json_decode, intval = ref_intval, key_le = ref_key_le,
       URL_host = ref_URL_host, Response_ok = ref_Response_ok, cookies_set = ref_cookies_set \<rparr>"

section \<open>Values and their key order\<close>

text \<open>
  The objects of a JavaScript value have distinct property names. One value is another
  \<^emph>\<open>reordered\<close> when it differs from it at most in the order of the properties of its objects,
  at any depth: the arrays have the same length and elements reordered one by one, the objects
  the same names with values reordered one by one, the scalars are equal.
\<close>

fun distinct_keys :: "json \<Rightarrow> bool" where
  "distinct_keys (JArr xs) = list_all distinct_keys xs"
| "distinct_keys (JObj ps) = (distinct (map fst ps) \<and> list_all (\<lambda>(k, v). distinct_keys v) ps)"
| "distinct_keys v = True"

fun reordered :: "json \<Rightarrow> json \<Rightarrow> bool" where
  "reordered (JArr xs) (JArr ys) = list_all2 reordered xs ys"
| "reordered (JObj ps) (JObj qs) =
     (length ps = length qs
      \<and> list_all (\<lambda>(k, v). list_ex (\<lambda>(k', w). k' = k \<and> reordered v w) qs) ps)"
| "reordered v w = (v = w)"

text \<open>A value none of whose objects, at any depth, has a property named \<^verbatim>\<open>__proto__\<close>.\<close>

fun no_proto :: "json \<Rightarrow> bool" where
  "no_proto (JArr xs) = list_all no_proto xs"
| "no_proto (JObj ps) = (''__proto__'' \<notin> fst ` set ps \<and> list_all (\<lambda>(k, v). no_proto v) ps)"
| "no_proto v = True"

section \<open>Sample inputs\<close>

text \<open>A configured gateway and a validator that share the secret and the identifier, and a
  request that carries what the gateway signed.\<close>

definition sample_env :: process_env where
  "sample_env =
     \<lparr> BFF_HMAC_SECRET = Some ''s3cret'', BFF_ID_env = None, LARAVEL_API_URL_env = None,
       NODE_ENV = Some ''production'' \<rparr>"

definition sample_cfg :: services_bff where
  "sample_cfg = \<lparr> bff_id = Some ''nextjs-bff-prod'', bff_secret = Some ''s3cret'' \<rparr>"

text \<open>The request the validator receives when the gateway sends what \<^verbatim>\<open>generateSignature\<close>
  returned: the three headers, and the normalized body if there is one.\<close>

definition transmitted :: "string \<Rightarrow> string \<Rightarrow> HmacResult \<Rightarrow> request" where
  "transmitted method path r =
     \<lparr> req_method = method, req_path = path,
       req_headers = [''X-BFF-Id'' \<mapsto> X_BFF_Id r, ''X-BFF-Timestamp'' \<mapsto> X_BFF_Timestamp r,
                      ''X-BFF-Signature'' \<mapsto> X_BFF_Signature r],
       req_content = (case normalizedBody r of None \<Rightarrow> [] | Some text \<Rightarrow> text) \<rparr>"

definition stamped :: "string \<Rightarrow> request" where
  "stamped ts =
     \<lparr> req_method = ''GET'', req_path = ''api/v1/users'',
       req_headers = [''X-BFF-Timestamp'' \<mapsto> ts], req_content = [] \<rparr>"

text \<open>An upstream that answers every call with 200, and inbound GET requests: one with no
  cookie, one with an empty \<^verbatim>\<open>auth_token\<close> cookie, one with the token \<^verbatim>\<open>tok\<close>.\<close>

definition sample_response :: fetch_response where
  \<open>sample_response =
     \<lparr> up_status = 200, up_statusText = ''OK'',
       up_headers = [(''content-type'', ''application/json'')], up_text = ''{"ok":true}'' \<rparr>\<close>

definition sample_upstream :: "fetch_request \<Rightarrow> fetch_outcome" where
  "sample_upstream options = Responded sample_response"

definition anonymous_get :: next_request where
  "anonymous_get =
     \<lparr> nr_method = ''GET'', nr_content_type = None, nr_json = None,
       nr_cookies = Map.empty, nr_searchParams = [] \<rparr>"

definition empty_cookie_get :: next_request where
  "empty_cookie_get = anonymous_get \<lparr> nr_cookies := [''auth_token'' \<mapsto> []] \<rparr>"

definition token_get :: next_request where
  "token_get = anonymous_get \<lparr> nr_cookies := [''auth_token'' \<mapsto> ''tok''] \<rparr>"

text \<open>A gateway whose secret is not set.\<close>

definition unconfigured_env :: process_env where
  "unconfigured_env = sample_env \<lparr> BFF_HMAC_SECRET := None \<rparr>"



section \<open>Properties\<close>

subsection \<open>Evaluation\<close>

text \<open>The definitions that running the model on a concrete input unfolds.\<close>

lemmas js_eval = js_sort_def utf8_len_def obj_assign_def obj_set_def array_index_def
  QuoteJSONString_def js_escape_char_def is_digit_def digits_value_def show_int_def digit_char_def
  ws1_def ws2_def ws3_def

lemmas php_eval = php_empty_def ksort_def php_quote_def php_escape_char_def key_string_def
  array_is_list_def list_keys_def assoc_set_def php_array_key_def is_digit_def digits_value_def
  show_int_def digit_char_def

lemmas validator_eval = validate_def validateHeaders_def validateBffId_def validateTimestamp_def
  validateSignature_def generatePayload_def hashBody_php_def hasHeader_def header_def
  TIMESTAMP_TOLERANCE_def transmitted_def sample_cfg_def

lemma dec_1700000000: "dec 1700000000 = ''1700000000''"
  by (simp add: dec.simps digit_char_def)

lemma sample_secret: "BFF_SECRET sample_env = ''s3cret''"
  and sample_id: "BFF_ID sample_env = ''nextjs-bff-prod''"
  by (simp_all add: BFF_SECRET_def BFF_ID_def sample_env_def or_else_def)

lemmas reference_eval = reference_def ref_sha256_def ref_hmac_sha256_def ref_json_decode_def
  ref_JSON_parse_def ref_intval_def ref_key_le_def read_json_def read_number_def unescape_def
  startsWith_def

lemma decode_john:
  \<open>json_decode reference ''{"name":"John Doe"}'' = PArr [(KStr ''name'', PStr ''John Doe'')]\<close>
  by (simp add: reference_eval php_eval)

lemma intval_1700000000: "intval reference ''1700000000'' = 1700000000"
  by (simp add: reference_eval php_eval)

lemmas proxy_eval = proxyRequest_def forward_def send_def relay_headers_def
  catch_response_def NextResponse_json_def code_string_def read_body_def isPublicRoute_def
  publicRoutes_def buildLaravelPath_def LARAVEL_API_URL_def or_else_def access_token_def
  auth_cookie_def startsWith_def SAFE_PATH_SEGMENT_def safe_char_def ref_URL_host_def host_of_def
  ref_Response_ok_def generateSignature_def ensureHmacConfigured_def BFF_SECRET_def BFF_ID_def
  hashBody_def sample_env_def sample_upstream_def sample_response_def anonymous_get_def

subsection \<open>The Path Guard\<close>

lemma validatePathSegments_Inr_iff:
  "validatePathSegments segs = Inr () \<longleftrightarrow>
     list_all (\<lambda>s. s \<noteq> [] \<and> s \<noteq> ''..'' \<and> s \<noteq> ''.'' \<and> \<not> includes_str s ''://''
                  \<and> \<not> startsWith s ''//'' \<and> SAFE_PATH_SEGMENT s) segs"
  by (induction segs) auto

lemma validatePathSegments_throws:
  "validatePathSegments segs = Inl e \<Longrightarrow>
     e = BffException INVALID_SIGNATURE ''Invalid path: empty segment''
     \<or> e = BffException INVALID_SIGNATURE ''Invalid path: traversal not allowed''
     \<or> e = BffException INVALID_SIGNATURE ''Invalid path: absolute URLs not allowed''
     \<or> e = BffException INVALID_SIGNATURE ''Invalid path: forbidden characters''"
  by (induction segs) (auto split: if_splits)

lemma validatePathSegments_cases:
  "validatePathSegments segs = Inr () \<or> (\<exists>e. validatePathSegments segs = Inl e)"
  by (cases "validatePathSegments segs") auto

text \<open>
  C6. \<^verbatim>\<open>validatePathSegments\<close> throws (a \<^verbatim>\<open>BffException\<close>, code \<^verbatim>\<open>INVALID_SIGNATURE\<close>) on
  every list of segments that holds an empty segment, a segment \<^verbatim>\<open>.\<close> or \<^verbatim>\<open>..\<close>, a segment
  containing \<^verbatim>\<open>://\<close> or starting with \<^verbatim>\<open>//\<close>, or a segment that does not match
  \<^verbatim>\<open>[A-Za-z0-9_-]+\<close>. It throws on \<^verbatim>\<open>["..", "etc"]\<close>, on \<^verbatim>\<open>["http:", "", "evil.com"]\<close> and on
  \<^verbatim>\<open>["a b"]\<close>, and returns normally on \<^verbatim>\<open>["users", "42", "roles"]\<close>.
\<close>

theorem path_guard_rejects:
  "(s \<in> set segments \<and>
      (s = [] \<or> s = ''.'' \<or> s = ''..'' \<or> includes_str s ''://'' \<or> startsWith s ''//''
         \<or> \<not> SAFE_PATH_SEGMENT s)
      \<longrightarrow> (\<exists>message. validatePathSegments segments = Inl (BffException INVALID_SIGNATURE message)))
   \<and> validatePathSegments [''..'', ''etc'']
       = Inl (BffException INVALID_SIGNATURE ''Invalid path: traversal not allowed'')
   \<and> validatePathSegments [''http:'', [], ''evil.com'']
       = Inl (BffException INVALID_SIGNATURE ''Invalid path: forbidden characters'')
   \<and> validatePathSegments [''a b'']
       = Inl (BffException INVALID_SIGNATURE ''Invalid path: forbidden characters'')
   \<and> validatePathSegments [''users'', ''42'', ''roles''] = Inr ()"
proof -
  have general: "\<exists>message. validatePathSegments segments = Inl (BffException INVALID_SIGNATURE message)"
    if bad: "s \<in> set segments"
      "s = [] \<or> s = ''.'' \<or> s = ''..'' \<or> includes_str s ''://'' \<or> startsWith s ''//''
         \<or> \<not> SAFE_PATH_SEGMENT s"
  proof -
    from bad have "validatePathSegments segments \<noteq> Inr ()"
      unfolding validatePathSegments_Inr_iff list_all_iff by blast
    then obtain e where e: "validatePathSegments segments = Inl e"
      using validatePathSegments_cases [of segments] by blast
    from validatePathSegments_throws [OF e] e show ?thesis by blast
  qed
  have ex1: "validatePathSegments [''..'', ''etc'']
               = Inl (BffException INVALID_SIGNATURE ''Invalid path: traversal not allowed'')"
    by simp
  have ex2: "validatePathSegments [''http:'', [], ''evil.com'']
               = Inl (BffException INVALID_SIGNATURE ''Invalid path: forbidden characters'')"
    by (simp add: startsWith_def SAFE_PATH_SEGMENT_def safe_char_def)
  have ex3: "validatePathSegments [''a b'']
               = Inl (BffException INVALID_SIGNATURE ''Invalid path: forbidden characters'')"
    by (simp add: startsWith_def SAFE_PATH_SEGMENT_def safe_char_def)
  have ex4: "validatePathSegments [''users'', ''42'', ''roles''] = Inr ()"
    by (simp add: startsWith_def SAFE_PATH_SEGMENT_def safe_char_def)
  from general ex1 ex2 ex3 ex4 show ?thesis by blast
qed

theorem path_guard_rejects_witness:
  "''//evil'' \<in> set [''users'', ''//evil''] \<and> startsWith ''//evil'' ''//''
   \<and> (\<exists>message. validatePathSegments [''users'', ''//evil'']
         = Inl (BffException INVALID_SIGNATURE message))"
  using path_guard_rejects [of "''//evil''" "[''users'', ''//evil'']"]
  by (simp add: startsWith_def)

subsection \<open>Timestamp freshness\<close>

text \<open>
  C5. For a received timestamp \<^verbatim>\<open>t\<close> (the integer the header casts to) and the current time
  \<^verbatim>\<open>now\<close>, the freshness stage accepts exactly when the two are at most 300 seconds apart,
  and rejects with the error \<^verbatim>\<open>Timestamp validation failed\<close> otherwise: a timestamp 301
  seconds in the past is rejected, one 299 seconds in the past is accepted, and so is one
  exactly 300 seconds in the past.
\<close>

theorem timestamp_window:
  assumes "header request ''X-BFF-Timestamp'' = Some ts"
  shows "validateTimestamp P now request
           = (if \<bar>now - intval P ts\<bar> \<le> 300 then Valid else Invalid ''Timestamp validation failed'')
         \<and> (intval P ts = now - 301 \<longrightarrow>
              validateTimestamp P now request = Invalid ''Timestamp validation failed'')
         \<and> (intval P ts = now - 299 \<longrightarrow> validateTimestamp P now request = Valid)
         \<and> (intval P ts = now - 300 \<longrightarrow> validateTimestamp P now request = Valid)"
  using assms by (simp add: validateTimestamp_def TIMESTAMP_TOLERANCE_def)

theorem timestamp_window_witness:
  "header (stamped ''1700000000'') ''X-BFF-Timestamp'' = Some ''1700000000''
   \<and> intval reference ''1700000000'' = 1700000301 - 301
   \<and> validateTimestamp reference 1700000301 (stamped ''1700000000'')
       = Invalid ''Timestamp validation failed''"
proof -
  have h: "header (stamped ''1700000000'') ''X-BFF-Timestamp'' = Some ''1700000000''"
    by (simp add: header_def stamped_def)
  have i: "intval reference ''1700000000'' = 1700000301 - 301"
    by (simp add: reference_def ref_intval_def is_digit_def digits_value_def)
  from timestamp_window [OF h, of reference 1700000301] h i show ?thesis by simp
qed

subsection \<open>Falsy bodies\<close>

lemma generateSignature_configured:
  "BFF_SECRET env \<noteq> [] \<Longrightarrow>
   generateSignature P env now method path body =
     Inr \<lparr> X_BFF_Id = BFF_ID env,
           X_BFF_Timestamp = dec (now div 1000),
           X_BFF_Signature =
             hmac_sha256 P (BFF_SECRET env)
               (dec (now div 1000) @ '':'' @ method @ '':'' @ path @ '':'' @ hashBody P body),
           normalizedBody =
             (case body of
                None \<Rightarrow> None
              | Some b \<Rightarrow> if b = JNull then None else Some (JSON_stringify (sortObjectKeys b))) \<rparr>"
  by (simp add: generateSignature_def ensureHmacConfigured_def Let_def)

lemma generateSignature_unconfigured:
  "BFF_SECRET env = [] \<Longrightarrow>
   generateSignature P env now method path body
     = Inl (Error ''BFF_HMAC_SECRET environment variable is not set'')"
  by (simp add: generateSignature_def ensureHmacConfigured_def)

text \<open>
  C10. For a body that is the number 0, the boolean false or the empty string,
  \<^verbatim>\<open>generateSignature\<close> computes the empty string as the body hash, as it does for no body:
  it returns the timestamp and the signature it returns for the body \<^verbatim>\<open>null\<close>, and with them
  a normalized body to transmit, the text \<^verbatim>\<open>0\<close>, \<^verbatim>\<open>false\<close> or \<^verbatim>\<open>""\<close>, which the signature
  does not cover.
\<close>

theorem falsy_body_signed_as_no_body:
  assumes "BFF_SECRET env \<noteq> []" and "b = JNum 0 \<or> b = JBool False \<or> b = JStr []"
  shows "hashBody P (Some b) = [] \<and> hashBody P (Some JNull) = [] \<and> hashBody P None = []
         \<and> (\<exists>r. generateSignature P env now method path (Some JNull) = Inr r
                \<and> normalizedBody r = None
                \<and> X_BFF_Signature r
                    = hmac_sha256 P (BFF_SECRET env)
                        (dec (now div 1000) @ '':'' @ method @ '':'' @ path @ '':'')
                \<and> generateSignature P env now method path (Some b)
                    = Inr (r \<lparr> normalizedBody := Some (JSON_stringify b) \<rparr>))
         \<and> JSON_stringify b \<noteq> []
         \<and> JSON_stringify (JNum 0) = ''0''
         \<and> JSON_stringify (JBool False) = ''false''
         \<and> JSON_stringify (JStr []) = [CHR 0x22, CHR 0x22]"
proof -
  have hashes: "hashBody P (Some b) = []" "hashBody P (Some JNull) = []" "hashBody P None = []"
    using assms(2) by (auto simp: hashBody_def)
  have texts: "JSON_stringify (JNum 0) = ''0''" "JSON_stringify (JBool False) = ''false''"
    "JSON_stringify (JStr []) = [CHR 0x22, CHR 0x22]"
    by (simp_all add: show_int_def dec.simps digit_char_def QuoteJSONString_def)
  have same: "sortObjectKeys b = b" "b \<noteq> JNull"
    using assms(2) by auto
  have nonempty: "JSON_stringify b \<noteq> []"
    using assms(2) texts by auto
  show ?thesis
    using hashes texts nonempty same
    by (simp add: generateSignature_configured [OF assms(1)])
qed

theorem falsy_body_signed_as_no_body_witness:
  "BFF_SECRET sample_env \<noteq> []
   \<and> hashBody reference (Some (JBool False)) = []
   \<and> generateSignature reference sample_env 1700000000123 ''POST'' ''api/v1/users'' (Some (JBool False))
       = Inr \<lparr> X_BFF_Id = ''nextjs-bff-prod'', X_BFF_Timestamp = ''1700000000'',
               X_BFF_Signature = ''hmac(s3cret,1700000000:POST:api/v1/users:)'',
               normalizedBody = Some ''false'' \<rparr>"
proof -
  have s: "BFF_SECRET sample_env \<noteq> []"
    by (simp add: BFF_SECRET_def sample_env_def or_else_def)
  have d: "dec 1700000000 = ''1700000000''"
    by (simp add: dec.simps digit_char_def)
  have g: "generateSignature reference sample_env 1700000000123 ''POST'' ''api/v1/users''
             (Some (JBool False))
           = Inr \<lparr> X_BFF_Id = ''nextjs-bff-prod'', X_BFF_Timestamp = ''1700000000'',
                   X_BFF_Signature = ''hmac(s3cret,1700000000:POST:api/v1/users:)'',
                   normalizedBody = Some ''false'' \<rparr>"
    unfolding generateSignature_configured [OF s]
    by (simp add: d hashBody_def BFF_ID_def BFF_SECRET_def sample_env_def or_else_def
        reference_def ref_hmac_sha256_def)
  from falsy_body_signed_as_no_body
         [OF s, of "JBool False" reference 1700000000123 "''POST''" "''api/v1/users''"] s g
  show ?thesis by simp
qed

subsection \<open>The canonical encoder of the signing side\<close>

lemma obj_get_insert_index:
  "k \<notin> fst ` set ps \<Longrightarrow>
   obj_get (insert_index i k v ps) k' = (if k' = k then v else obj_get ps k')"
  by (induction ps) (auto split: option.splits)

lemma obj_get_map_update_other:
  "k' \<noteq> k \<Longrightarrow> obj_get (map (\<lambda>p. if fst p = k then (k, v) else p) ps) k' = obj_get ps k'"
  by (induction ps) auto

lemma obj_get_map_update_same:
  "k \<in> fst ` set ps \<Longrightarrow> obj_get (map (\<lambda>p. if fst p = k then (k, v) else p) ps) k = v"
  by (induction ps) auto

lemma obj_get_append_new:
  "k \<notin> fst ` set ps \<Longrightarrow> obj_get (ps @ [(k, v)]) k' = (if k' = k then v else obj_get ps k')"
  by (induction ps) auto

lemma obj_get_obj_set: "obj_get (obj_set ps k v) k' = (if k' = k then v else obj_get ps k')"
  by (simp add: obj_set_def obj_get_insert_index obj_get_map_update_other obj_get_map_update_same obj_get_append_new
      split: option.splits)

lemma set_insert_index: "set (insert_index i k v ps) = insert (k, v) (set ps)"
  by (induction ps) (auto split: option.splits)

lemma keys_update: "fst ` set (map (\<lambda>p. if fst p = k then (k, v) else p) ps) = fst ` set ps"
  by (induction ps) auto

lemma keys_obj_set: "fst ` set (obj_set ps k v) = insert k (fst ` set ps)"
proof (cases "k \<in> fst ` set ps")
  case True
  then have eq: "obj_set ps k v = map (\<lambda>p. if fst p = k then (k, v) else p) ps"
    by (simp add: obj_set_def)
  have "fst ` set (obj_set ps k v) = fst ` set ps"
    unfolding eq by (rule keys_update)
  with True show ?thesis by blast
next
  case False
  then show ?thesis
    by (simp add: obj_set_def set_insert_index split: option.splits)
qed

lemma distinct_insert_index:
  "k \<notin> fst ` set ps \<Longrightarrow> distinct (map fst ps) \<Longrightarrow> distinct (map fst (insert_index i k v ps))"
  by (induction ps) (auto simp: set_insert_index split: option.splits)

lemma map_fst_update: "map (fst \<circ> (\<lambda>p. if fst p = k then (k, v) else p)) ps = map fst ps"
  by (induction ps) auto

lemma distinct_obj_set: "distinct (map fst ps) \<Longrightarrow> distinct (map fst (obj_set ps k v))"
  by (cases "k \<in> fst ` set ps")
    (simp_all add: obj_set_def distinct_insert_index map_fst_update split: option.splits)

lemma obj_get_obj_assign:
  "obj_get (obj_assign ps k v) k' = (if k' = k \<and> k \<noteq> ''__proto__'' then v else obj_get ps k')"
  by (simp add: obj_assign_def obj_get_obj_set)

lemma keys_obj_assign:
  "fst ` set (obj_assign ps k v) = fst ` set ps \<union> ({k} - {''__proto__''})"
  by (simp add: obj_assign_def keys_obj_set)

lemma distinct_obj_assign: "distinct (map fst ps) \<Longrightarrow> distinct (map fst (obj_assign ps k v))"
  by (simp add: obj_assign_def distinct_obj_set)

lemma keys_fold_obj_assign:
  "fst ` set (foldl (\<lambda>acc key. obj_assign acc key (g key)) acc ks)
     = fst ` set acc \<union> (set ks - {''__proto__''})"
  by (induction ks arbitrary: acc) (auto simp: keys_obj_assign)

lemma distinct_fold_obj_assign:
  "distinct (map fst acc) \<Longrightarrow>
   distinct (map fst (foldl (\<lambda>acc key. obj_assign acc key (g key)) acc ks))"
  by (induction ks arbitrary: acc) (auto simp: distinct_obj_assign)

lemma obj_get_fold_obj_assign:
  "obj_get (foldl (\<lambda>acc key. obj_assign acc key (g key)) acc ks) k
     = (if k \<in> set ks \<and> k \<noteq> ''__proto__'' then g k else obj_get acc k)"
  by (induction ks arbitrary: acc) (auto simp: obj_get_obj_assign)

lemma fold_obj_assign_cong:
  "(\<And>k. k \<in> set ks \<Longrightarrow> k \<noteq> ''__proto__'' \<Longrightarrow> g k = h k) \<Longrightarrow>
   foldl (\<lambda>acc key. obj_assign acc key (g key)) acc ks
     = foldl (\<lambda>acc key. obj_assign acc key (h key)) acc ks"
  by (induction ks arbitrary: acc) (auto simp: obj_assign_def)

lemma fold_obj_assign_filter:
  "foldl (\<lambda>acc key. obj_assign acc key (g key)) acc (filter (\<lambda>k. k \<noteq> ''__proto__'') ks)
     = foldl (\<lambda>acc key. obj_assign acc key (g key)) acc ks"
  by (induction ks arbitrary: acc) (auto simp: obj_assign_def)

lemma obj_get_map_values:
  "h JNull = JNull \<Longrightarrow> obj_get (map (\<lambda>(k, v). (k, h v)) ps) k = h (obj_get ps k)"
  by (induction ps) auto

lemma obj_get_member: "k \<in> fst ` set ps \<Longrightarrow> (k, obj_get ps k) \<in> set ps"
  by (induction ps) auto

lemma obj_get_unique: "distinct (map fst ps) \<Longrightarrow> (k, v) \<in> set ps \<Longrightarrow> obj_get ps k = v"
  by (induction ps) (auto simp: image_iff)

lemma sortObjectKeys_JObj:
  "sortObjectKeys (JObj ps) =
     JObj (foldl (\<lambda>acc key. obj_assign acc key (sortObjectKeys (obj_get ps key))) []
             (js_sort (map fst ps)))"
  by (simp add: obj_get_map_values)

lemma js_sort_eq_if_same_keys:
  assumes "distinct xs" "distinct ys" "set xs = set ys"
  shows "js_sort xs = js_sort ys"
proof -
  let ?f = "\<lambda>k. (utf16 k, k)"
  have inj: "inj ?f" by (rule injI) simp
  have "map ?f (js_sort xs) = map ?f (js_sort ys)"
    unfolding js_sort_def
    by (rule sorted_distinct_set_unique)
      (use assms inj in \<open>simp_all add: distinct_map inj_on_def\<close>)
  with inj show ?thesis by (simp add: inj_map_eq_map)
qed

lemma filter_js_sort: "filter P (js_sort ks) = js_sort (filter P ks)"
  by (simp add: js_sort_def filter_sort)

lemma set_js_sort: "set (js_sort ks) = set ks"
  by (simp add: js_sort_def)

lemma distinct_js_sort: "distinct (js_sort ks) = distinct ks"
  by (simp add: js_sort_def)

text \<open>The order is that of the code units, not of the bytes: the character U+1F600, a
  surrogate pair, comes before U+FF01, whose bytes are smaller.\<close>

lemma js_sort_code_units:
  "js_sort [[CHR 0xEF, CHR 0xBC, CHR 0x81], [CHR 0xF0, CHR 0x9F, CHR 0x98, CHR 0x80], ''b'', ''a'']
     = [''a'', ''b'', [CHR 0xF0, CHR 0x9F, CHR 0x98, CHR 0x80], [CHR 0xEF, CHR 0xBC, CHR 0x81]]"
  by (simp add: js_sort_def utf8_len_def)

text \<open>
  What holds of the encoder, on the values whose objects have distinct property names (as
  every JavaScript object has): it is idempotent, and two values that differ only in the order
  of the properties of their objects, at any depth, have one canonical form, and so the same
  bytes.
\<close>

lemma map_eq_if_list_all2:
  "list_all2 (\<lambda>x y. f x = f y) xs ys \<Longrightarrow> map f xs = map f ys"
  by (induction xs ys rule: list_all2_induct) auto

lemma sortObjectKeys_idem:
  "distinct_keys v \<Longrightarrow> sortObjectKeys (sortObjectKeys v) = sortObjectKeys v"
proof (induction v rule: sortObjectKeys.induct)
  case (5 xs)
  then show ?case by (simp add: list_all_iff)
next
  case (6 ps)
  let ?g = "\<lambda>key. sortObjectKeys (obj_get ps key)"
  let ?F = "foldl (\<lambda>acc key. obj_assign acc key (?g key)) [] (js_sort (map fst ps))"
  let ?own = "filter (\<lambda>k. k \<noteq> ''__proto__'') (map fst ps)"
  from "6.prems" have d: "distinct (map fst ps)"
    and vs: "\<And>k v. (k, v) \<in> set ps \<Longrightarrow> distinct_keys v"
    by (auto simp: list_all_iff)
  have keysF: "set (map fst ?F) = set ?own"
    by (auto simp: keys_fold_obj_assign set_js_sort)
  have dF: "distinct (map fst ?F)"
    by (rule distinct_fold_obj_assign) simp
  have "js_sort (map fst ?F) = js_sort ?own"
    using dF _ keysF by (rule js_sort_eq_if_same_keys) (use d in simp)
  then have sortF:
    "js_sort (map fst ?F) = filter (\<lambda>k. k \<noteq> ''__proto__'') (js_sort (map fst ps))"
    by (simp add: filter_js_sort)
  have vals: "sortObjectKeys (obj_get ?F key) = ?g key"
    if "key \<in> set (js_sort (map fst ps))" "key \<noteq> ''__proto__''" for key
  proof -
    from that have "key \<in> fst ` set ps" by (simp add: set_js_sort)
    then have "(key, obj_get ps key) \<in> set ps" by (rule obj_get_member)
    then have "sortObjectKeys (sortObjectKeys (obj_get ps key)) = sortObjectKeys (obj_get ps key)"
      using "6.IH" vs by blast
    moreover have "obj_get ?F key = ?g key"
      using that by (simp add: obj_get_fold_obj_assign set_js_sort)
    ultimately show ?thesis by simp
  qed
  have "sortObjectKeys (JObj ?F)
          = JObj (foldl (\<lambda>acc key. obj_assign acc key (sortObjectKeys (obj_get ?F key))) []
                    (js_sort (map fst ?F)))"
    by (rule sortObjectKeys_JObj)
  also have "foldl (\<lambda>acc key. obj_assign acc key (sortObjectKeys (obj_get ?F key))) []
                 (js_sort (map fst ?F))
             = foldl (\<lambda>acc key. obj_assign acc key (sortObjectKeys (obj_get ?F key))) []
                 (js_sort (map fst ps))"
    unfolding sortF by (rule fold_obj_assign_filter)
  also have "\<dots> = ?F"
    by (rule fold_obj_assign_cong) (rule vals)
  finally show ?case by (simp only: sortObjectKeys_JObj)
qed simp_all

lemma sortObjectKeys_reordered:
  "reordered v w \<Longrightarrow> distinct_keys v \<Longrightarrow> distinct_keys w \<Longrightarrow> sortObjectKeys v = sortObjectKeys w"
proof (induction v w rule: reordered.induct)
  case (1 xs ys)
  from "1.prems" have r: "list_all2 reordered xs ys"
    and dx: "\<And>x. x \<in> set xs \<Longrightarrow> distinct_keys x" and dy: "\<And>y. y \<in> set ys \<Longrightarrow> distinct_keys y"
    by (auto simp: list_all_iff)
  have "list_all2 (\<lambda>x y. sortObjectKeys x = sortObjectKeys y) xs ys"
    using r "1.IH" dx dy by (auto simp: list_all2_conv_all_nth)
  then show ?case by (simp add: map_eq_if_list_all2)
next
  case (2 ps qs)
  from "2.prems" have len: "length ps = length qs"
    and match: "\<And>k v. (k, v) \<in> set ps \<Longrightarrow> \<exists>w. (k, w) \<in> set qs \<and> reordered v w"
    and dp: "distinct (map fst ps)" and dq: "distinct (map fst qs)"
    and vp: "\<And>k v. (k, v) \<in> set ps \<Longrightarrow> distinct_keys v"
    and vq: "\<And>k w. (k, w) \<in> set qs \<Longrightarrow> distinct_keys w"
    by (auto simp: list_all_iff list_ex_iff)
  have sub: "set (map fst ps) \<subseteq> set (map fst qs)"
    using match by force
  have "card (set (map fst ps)) = card (set (map fst qs))"
    using dp dq len by (metis distinct_card length_map)
  with sub have keys: "set (map fst ps) = set (map fst qs)"
    by (simp add: card_subset_eq)
  have sorted_keys: "js_sort (map fst ps) = js_sort (map fst qs)"
    using dp dq keys by (rule js_sort_eq_if_same_keys)
  have vals: "sortObjectKeys (obj_get ps key) = sortObjectKeys (obj_get qs key)"
    if "key \<in> set (js_sort (map fst ps))" for key
  proof -
    from that have "key \<in> fst ` set ps" by (simp add: set_js_sort)
    then have m: "(key, obj_get ps key) \<in> set ps" by (rule obj_get_member)
    then obtain w where w: "(key, w) \<in> set qs" "reordered (obj_get ps key) w"
      using match by blast
    from obj_get_unique [OF dq w(1)] have "obj_get qs key = w" .
    moreover have "sortObjectKeys (obj_get ps key) = sortObjectKeys w"
      using "2.IH" [OF m refl w(1) refl w(2)] vp [OF m] vq [OF w(1)] by blast
    ultimately show ?thesis by simp
  qed
  have "foldl (\<lambda>acc key. obj_assign acc key (sortObjectKeys (obj_get ps key))) []
          (js_sort (map fst ps))
        = foldl (\<lambda>acc key. obj_assign acc key (sortObjectKeys (obj_get qs key))) []
            (js_sort (map fst ps))"
    by (rule fold_obj_assign_cong) (rule vals)
  then show ?case
    by (simp only: sortObjectKeys_JObj sorted_keys)
qed simp_all

text \<open>
  What the encoder keeps. A value with no property named \<^verbatim>\<open>__proto__\<close>, at any depth, comes
  out reordered: every array with its length and its elements in their order, every scalar
  with its value, every object with its properties, each of them canonical in turn.
\<close>

lemma list_all2_map_right:
  "(\<And>x. x \<in> set xs \<Longrightarrow> R x (f x)) \<Longrightarrow> list_all2 R xs (map f xs)"
  by (induction xs) auto

lemma sortObjectKeys_preserves:
  "distinct_keys v \<Longrightarrow> no_proto v \<Longrightarrow> reordered v (sortObjectKeys v)"
proof (induction v rule: sortObjectKeys.induct)
  case (5 xs)
  then show ?case by (simp add: list_all_iff list_all2_map_right)
next
  case (6 ps)
  let ?g = "\<lambda>key. sortObjectKeys (obj_get ps key)"
  let ?F = "foldl (\<lambda>acc key. obj_assign acc key (?g key)) [] (js_sort (map fst ps))"
  from "6.prems" have d: "distinct (map fst ps)"
    and np: "''__proto__'' \<notin> fst ` set ps"
    and vs: "\<And>k v. (k, v) \<in> set ps \<Longrightarrow> distinct_keys v \<and> no_proto v"
    by (auto simp: list_all_iff)
  have keysF: "fst ` set ?F = fst ` set ps"
    using np by (auto simp: keys_fold_obj_assign set_js_sort)
  have dF: "distinct (map fst ?F)"
    by (rule distinct_fold_obj_assign) simp
  have "length ps = card (fst ` set ps)"
    using distinct_card [OF d] by simp
  moreover have "length ?F = card (fst ` set ?F)"
    using distinct_card [OF dF] by simp
  ultimately have len: "length ps = length ?F"
    by (simp only: keysF)
  have member: "\<exists>w. (k, w) \<in> set ?F \<and> reordered v w" if m: "(k, v) \<in> set ps" for k v
  proof -
    from m have k: "k \<in> fst ` set ps" by force
    with np have k': "k \<noteq> ''__proto__''" by blast
    from k keysF have "(k, obj_get ?F k) \<in> set ?F" by (simp add: obj_get_member)
    moreover have "obj_get ?F k = sortObjectKeys v"
      using k k' obj_get_unique [OF d m] by (simp add: obj_get_fold_obj_assign set_js_sort)
    moreover have "reordered v (sortObjectKeys v)"
      using "6.IH" m vs by blast
    ultimately show ?thesis by auto
  qed
  have "list_ex (\<lambda>(k', w). k' = k \<and> reordered v w) ?F" if "(k, v) \<in> set ps" for k v
    using member [OF that] unfolding list_ex_iff by force
  then have "list_all (\<lambda>(k, v). list_ex (\<lambda>(k', w). k' = k \<and> reordered v w) ?F) ps"
    unfolding list_all_iff by blast
  with len have "reordered (JObj ps) (JObj ?F)"
    by simp
  then show ?case by (simp only: sortObjectKeys_JObj)
qed simp_all

text \<open>
  C7. For every JSON value \<^verbatim>\<open>sortObjectKeys\<close> is idempotent, the bytes printed of its result do
  not depend on the order in which the properties of the objects of the value were inserted,
  and the order of the elements of arrays and the values of scalars are kept. The code departs
  from the last part: a property named \<^verbatim>\<open>__proto__\<close> is not copied, since an assignment to this
  name creates no property. The object \<^verbatim>\<open>{"__proto__":5,"a":1}\<close>, as \<^verbatim>\<open>JSON.parse\<close> yields it,
  is canonicalized to \<^verbatim>\<open>{"a":1}\<close>: the number 5 is lost, and the result is not the value
  reordered.
\<close>

theorem proto_member_dropped:
  \<open>JSON_parse reference ''{"__proto__":5,"a":1}''
     = Some (JObj [(''__proto__'', JNum 5), (''a'', JNum 1)])
   \<and> distinct_keys (JObj [(''__proto__'', JNum 5), (''a'', JNum 1)])
   \<and> JSON_stringify (JObj [(''__proto__'', JNum 5), (''a'', JNum 1)]) = ''{"__proto__":5,"a":1}''
   \<and> sortObjectKeys (JObj [(''__proto__'', JNum 5), (''a'', JNum 1)]) = JObj [(''a'', JNum 1)]
   \<and> JSON_stringify (sortObjectKeys (JObj [(''__proto__'', JNum 5), (''a'', JNum 1)])) = ''{"a":1}''
   \<and> \<not> reordered (JObj [(''__proto__'', JNum 5), (''a'', JNum 1)])
          (sortObjectKeys (JObj [(''__proto__'', JNum 5), (''a'', JNum 1)]))\<close>
proof -
  have canonical:
    "sortObjectKeys (JObj [(''__proto__'', JNum 5), (''a'', JNum 1)]) = JObj [(''a'', JNum 1)]"
    by (simp add: js_eval)
  have parsed: \<open>JSON_parse reference ''{"__proto__":5,"a":1}''
     = Some (JObj [(''__proto__'', JNum 5), (''a'', JNum 1)])\<close>
    by (simp add: reference_eval js_eval)
  have printed:
    \<open>JSON_stringify (JObj [(''__proto__'', JNum 5), (''a'', JNum 1)]) = ''{"__proto__":5,"a":1}''\<close>
    \<open>JSON_stringify (JObj [(''a'', JNum 1)]) = ''{"a":1}''\<close>
    by (simp_all add: js_eval dec.simps)
  show ?thesis
    unfolding canonical using parsed printed by simp
qed

subsection \<open>Signing a body and validating it\<close>

lemma hashBody_john:
  \<open>hashBody P (Some (JObj [(''name'', JStr ''John Doe'')])) = sha256 P ''{"name":"JohnDoe"}''\<close>
  unfolding hashBody_def by (simp add: js_eval)

lemma normalized_john:
  \<open>JSON_stringify (sortObjectKeys (JObj [(''name'', JStr ''John Doe'')])) = ''{"name":"John Doe"}''\<close>
  by (simp add: js_eval)

lemma sign_john:
  \<open>generateSignature P sample_env 1700000000123 ''POST'' ''api/v1/users''
     (Some (JObj [(''name'', JStr ''John Doe'')]))
   = Inr \<lparr> X_BFF_Id = ''nextjs-bff-prod'', X_BFF_Timestamp = ''1700000000'',
           X_BFF_Signature =
             hmac_sha256 P ''s3cret''
               (''1700000000:POST:api/v1/users:'' @ sha256 P ''{"name":"JohnDoe"}''),
           normalizedBody = Some ''{"name":"John Doe"}'' \<rparr>\<close>
proof -
  have s: "BFF_SECRET sample_env \<noteq> []" by (simp add: sample_secret)
  show ?thesis
    unfolding generateSignature_configured [OF s] hashBody_john sample_secret sample_id
    by (simp add: dec_1700000000 js_eval)
qed

lemma validate_john:
  assumes \<open>json_decode P ''{"name":"John Doe"}'' = PArr [(KStr ''name'', PStr ''John Doe'')]\<close>
    and "intval P ''1700000000'' = 1700000000"
  shows \<open>validate P sample_cfg 1700000010
     (transmitted ''POST'' ''api/v1/users''
        \<lparr> X_BFF_Id = ''nextjs-bff-prod'', X_BFF_Timestamp = ''1700000000'',
           X_BFF_Signature = sig, normalizedBody = Some ''{"name":"John Doe"}'' \<rparr>)
   = (if sig = hmac_sha256 P ''s3cret''
                 (''1700000000:POST:api/v1/users:'' @ sha256 P ''{"name":"John Doe"}'')
      then Valid else Invalid ''Invalid signature'')\<close>
  using assms by (simp add: validator_eval php_eval)

text \<open>The part of the round trip that holds. Once the headers, the identifier and the timestamp
  have passed, the validator accepts exactly the signature it computes itself; and a request
  signed with no body is accepted, on every platform whose integer cast reads back the decimal
  timestamp, when both sides hold the same secret and identifier and the clocks are at most
  300 seconds apart.\<close>

lemma validate_signature_stage:
  assumes "validateHeaders request = Valid" and "validateBffId cfg request = Valid"
    and "validateTimestamp P now request = Valid"
    and "bff_secret cfg = Some secret" and "\<not> php_empty secret"
  shows "validate P cfg now request
           = (if header request ''X-BFF-Signature''
                   \<noteq> Some (hmac_sha256 P secret (generatePayload P request))
              then Invalid ''Invalid signature'' else Valid)"
  using assms by (simp add: validate_def validateSignature_def Let_def)

lemma no_body_round_trip:
  assumes "BFF_HMAC_SECRET env = Some secret" and "secret \<noteq> []" and "secret \<noteq> ''0''"
    and "bff_secret cfg = Some secret" and "bff_id cfg = Some (BFF_ID env)"
    and "intval P (dec (now div 1000)) = int (now div 1000)"
    and "\<bar>now' - int (now div 1000)\<bar> \<le> 300"
  shows "\<exists>r. generateSignature P env now verb path (Some JNull) = Inr r
             \<and> validate P cfg now' (transmitted verb path r) = Valid"
proof -
  from assms(1,2) have s: "BFF_SECRET env = secret" "BFF_SECRET env \<noteq> []"
    by (simp_all add: BFF_SECRET_def or_else_def)
  show ?thesis
    unfolding generateSignature_configured [OF s(2)]
    using assms s(1)
    by (simp add: hashBody_def validate_def validateHeaders_def validateBffId_def
        validateTimestamp_def validateSignature_def generatePayload_def hashBody_php_def
        hasHeader_def header_def TIMESTAMP_TOLERANCE_def transmitted_def php_empty_def Let_def)
qed

text \<open>
  C2. For a body that is neither \<^verbatim>\<open>null\<close> nor \<^verbatim>\<open>undefined\<close>, the body hash in the signed
  payload is the SHA-256 digest of the normalized body that \<^verbatim>\<open>generateSignature\<close> returns for
  transmission. The code departs from this: for the body \<^verbatim>\<open>{"name":"John Doe"}\<close> it returns
  the normalized body \<^verbatim>\<open>{"name":"John Doe"}\<close> and signs the digest of \<^verbatim>\<open>{"name":"JohnDoe"}\<close>,
  the text with its white space removed, on every platform; under digests that tell their
  inputs apart the body hash is not the digest of the normalized body.
\<close>

theorem body_hash_not_of_transmitted_bytes:
  \<open>generateSignature P sample_env 1700000000123 ''POST'' ''api/v1/users''
     (Some (JObj [(''name'', JStr ''John Doe'')]))
   = Inr \<lparr> X_BFF_Id = ''nextjs-bff-prod'', X_BFF_Timestamp = ''1700000000'',
           X_BFF_Signature =
             hmac_sha256 P ''s3cret''
               (''1700000000:POST:api/v1/users:'' @ sha256 P ''{"name":"JohnDoe"}''),
           normalizedBody = Some ''{"name":"John Doe"}'' \<rparr>
   \<and> hashBody P (Some (JObj [(''name'', JStr ''John Doe'')])) = sha256 P ''{"name":"JohnDoe"}''
   \<and> hashBody reference (Some (JObj [(''name'', JStr ''John Doe'')]))
       \<noteq> sha256 reference ''{"name":"John Doe"}''\<close>
  by (simp add: sign_john hashBody_john reference_def ref_sha256_def)

text \<open>
  C1. Signing a request and validating what was signed, with the same secret and inside the
  window, returns \<^verbatim>\<open>Valid\<close> for every method, path and JSON object body. The code departs
  from this: on every platform whose JSON reader reads \<^verbatim>\<open>{"name":"John Doe"}\<close> as the
  one-entry array it denotes, the validator accepts the signed POST of this body only if the
  MAC of the payload over the digest of \<^verbatim>\<open>{"name":"JohnDoe"}\<close> (what the gateway signed) is
  the MAC of the payload over the digest of \<^verbatim>\<open>{"name":"John Doe"}\<close> (what it sent), and
  answers \<^verbatim>\<open>Invalid signature\<close> otherwise.
\<close>

theorem signed_body_with_space_rejected:
  assumes \<open>json_decode P ''{"name":"John Doe"}'' = PArr [(KStr ''name'', PStr ''John Doe'')]\<close>
    and "intval P ''1700000000'' = 1700000000"
  shows \<open>\<exists>r. generateSignature P sample_env 1700000000123 ''POST'' ''api/v1/users''
                (Some (JObj [(''name'', JStr ''John Doe'')])) = Inr r
            \<and> normalizedBody r = Some ''{"name":"John Doe"}''
            \<and> validate P sample_cfg 1700000010 (transmitted ''POST'' ''api/v1/users'' r)
                = (if hmac_sha256 P ''s3cret''
                        (''1700000000:POST:api/v1/users:'' @ sha256 P ''{"name":"JohnDoe"}'')
                      = hmac_sha256 P ''s3cret''
                          (''1700000000:POST:api/v1/users:'' @ sha256 P ''{"name":"John Doe"}'')
                   then Valid else Invalid ''Invalid signature'')\<close>
  unfolding sign_john using validate_john [OF assms] by simp

theorem signed_body_with_space_rejected_witness:
  \<open>json_decode reference ''{"name":"John Doe"}'' = PArr [(KStr ''name'', PStr ''John Doe'')]
   \<and> intval reference ''1700000000'' = 1700000000
   \<and> (\<exists>r. generateSignature reference sample_env 1700000000123 ''POST'' ''api/v1/users''
               (Some (JObj [(''name'', JStr ''John Doe'')])) = Inr r
           \<and> normalizedBody r = Some ''{"name":"John Doe"}''
           \<and> validate reference sample_cfg 1700000010 (transmitted ''POST'' ''api/v1/users'' r)
               = Invalid ''Invalid signature'')\<close>
proof -
  have differ:
    \<open>hmac_sha256 reference ''s3cret''
        (''1700000000:POST:api/v1/users:'' @ sha256 reference ''{"name":"JohnDoe"}'')
      \<noteq> hmac_sha256 reference ''s3cret''
          (''1700000000:POST:api/v1/users:'' @ sha256 reference ''{"name":"John Doe"}'')\<close>
    by (simp add: reference_def ref_sha256_def ref_hmac_sha256_def)
  from signed_body_with_space_rejected [OF decode_john intval_1700000000] differ
    decode_john intval_1700000000
  show ?thesis by simp
qed

subsection \<open>The two canonical encoders\<close>

text \<open>
  C3. The two canonical encoders print the same bytes for the same JSON value. The code departs
  from this: the signing side prints the empty object as \<^verbatim>\<open>{}\<close> and the validating side, which
  reads objects into PHP arrays, prints it as \<^verbatim>\<open>[]\<close>; the object \<^verbatim>\<open>{"0":"x"}\<close> is printed
  as it is by the signing side and as the array \<^verbatim>\<open>["x"]\<close> by the validating side, under
  every key order.
\<close>

theorem empty_object_encoded_differently:
  \<open>JSON_stringify (sortObjectKeys (JObj [])) = ''{}''
   \<and> json_encode (sortArrayKeys le (php_of_json (JObj []))) = ''[]''
   \<and> JSON_stringify (sortObjectKeys (JObj [(''0'', JStr ''x'')])) = ''{"0":"x"}''
   \<and> json_encode (sortArrayKeys le (php_of_json (JObj [(''0'', JStr ''x'')]))) = ''["x"]''\<close>
  by (simp add: js_eval php_eval)

text \<open>On the object \<^verbatim>\<open>{"b":1,"a":[2,1]}\<close> the two encoders agree: both print
  \<^verbatim>\<open>{"a":[2,1],"b":1}\<close>, the validating side under every key order that puts the key
  \<^verbatim>\<open>a\<close> before \<^verbatim>\<open>b\<close> and 0 before 1.\<close>

lemma example_canonical_js:
  \<open>JSON_stringify (sortObjectKeys (JObj [(''b'', JNum 1), (''a'', JArr [JNum 2, JNum 1])]))
     = ''{"a":[2,1],"b":1}''\<close>
  by (simp add: js_eval dec.simps)

lemma example_canonical_php:
  assumes "\<not> le (KStr ''b'') (KStr ''a'')" and "le (KInt 0) (KInt 1)"
  shows \<open>json_encode (sortArrayKeys le
             (php_of_json (JObj [(''b'', JNum 1), (''a'', JArr [JNum 2, JNum 1])])))
         = ''{"a":[2,1],"b":1}''\<close>
  using assms by (simp add: php_eval dec.simps)

subsection \<open>The Proxy Forwarder\<close>

lemma relay_frame:
  "res_status (relay P env response) = up_status response"
  "res_statusText (relay P env response) = up_statusText response"
  "res_body (relay P env response) = Text (up_text response)"
  by (simp_all add: relay_def Let_def split: option.splits)

lemma catch_response_status: "res_status (catch_response error) = 500"
  by (simp add: catch_response_def NextResponse_json_def split: thrown.splits)

lemma proxyRequest_path_failure:
  "validatePathSegments pathSegments = Inl error \<Longrightarrow>
   proxyRequest P env now fetch request method pathSegments = (catch_response error, [])"
  by (simp add: proxyRequest_def)

lemma proxyRequest_forward:
  assumes "validatePathSegments pathSegments = Inr ()"
    and "URL_host P (''api/v1/'' @ join ''/'' pathSegments) (Some (LARAVEL_API_URL env)) = Some host"
    and "URL_host P (LARAVEL_API_URL env) None = Some host"
    and "generateSignature P env now method (''api/v1/'' @ join ''/'' pathSegments)
           (Some (read_body request)) = Inr hmacResult"
  shows "proxyRequest P env now fetch request method pathSegments
           = forward P env fetch request method (''api/v1/'' @ join ''/'' pathSegments) hmacResult"
  using assms by (simp add: proxyRequest_def buildLaravelPath_def)

lemma proxyRequest_cases:
  "(\<exists>error. proxyRequest P env now fetch request method pathSegments = (catch_response error, []))
   \<or> (\<exists>hmacResult. validatePathSegments pathSegments = Inr ()
          \<and> proxyRequest P env now fetch request method pathSegments
             = forward P env fetch request method (''api/v1/'' @ join ''/'' pathSegments) hmacResult)"
  by (cases "validatePathSegments pathSegments")
    (auto simp: proxyRequest_def buildLaravelPath_def Let_def split: option.splits sum.splits)

lemma proxyRequest_unconfigured:
  "BFF_SECRET env = [] \<Longrightarrow>
   \<exists>error. proxyRequest P env now fetch request method pathSegments = (catch_response error, [])"
  by (cases "validatePathSegments pathSegments")
    (auto simp: proxyRequest_def generateSignature_unconfigured Let_def split: option.splits)

lemma forward_unauthorized:
  "or_else (nr_cookies request ''auth_token'') [] = [] \<Longrightarrow> \<not> isPublicRoute laravelPath \<Longrightarrow>
   forward P env fetch request method laravelPath hmacResult =
     (NextResponse_json
        (JObj [(''error'', JStr ''Unauthorized''), (''message'', JStr ''No auth token found'')]) 401, [])"
  by (simp add: forward_def)

lemma send_calls:
  "snd (send P env fetch request method laravelPath hmacResult headers) =
     [\<lparr> fr_base = LARAVEL_API_URL env, fr_path = laravelPath,
        fr_searchParams = foldl (\<lambda>acc p. assoc_set acc (fst p) (snd p)) [] (nr_searchParams request),
        fr_method = method, fr_headers = headers, fr_body = normalizedBody hmacResult \<rparr>]"
  by (simp add: send_def Let_def split: fetch_outcome.splits)




lemma isPublicRoute_iff:
  "isPublicRoute p \<longleftrightarrow>
     startsWith p ''api/v1/auth/login'' \<or> startsWith p ''api/v1/auth/register''
     \<or> startsWith p ''api/v1/auth/providers''"
  by (simp add: isPublicRoute_def publicRoutes_def)




text \<open>
  C4, as the claim states it, fails: a request that fails path validation is answered with the
  message of the check that failed. The segments \<^verbatim>\<open>[".."]\<close> are answered
  \<^verbatim>\<open>Invalid path: traversal not allowed\<close> and the segments \<^verbatim>\<open>["a b"]\<close> are answered
  \<^verbatim>\<open>Invalid path: forbidden characters\<close>, so the two bodies differ.
\<close>

theorem path_rejections_name_the_check:
  "fst (proxyRequest reference sample_env 1700000000123 sample_upstream anonymous_get ''GET'' [''..''])
     = NextResponse_json
         (JObj [(''error'', JStr ''Invalid path: traversal not allowed''),
                (''code'', JStr ''INVALID_SIGNATURE'')]) 500
   \<and> fst (proxyRequest reference sample_env 1700000000123 sample_upstream anonymous_get ''GET'' [''a b''])
     = NextResponse_json
         (JObj [(''error'', JStr ''Invalid path: forbidden characters''),
                (''code'', JStr ''INVALID_SIGNATURE'')]) 500
   \<and> res_body (fst (proxyRequest reference sample_env 1700000000123 sample_upstream anonymous_get
                      ''GET'' [''..'']))
       \<noteq> res_body (fst (proxyRequest reference sample_env 1700000000123 sample_upstream anonymous_get
                          ''GET'' [''a b'']))"
  by (simp add: proxy_eval)

text \<open>
  C4, amended. A request that fails path validation makes no upstream call and is answered
  with status 500, the code \<^verbatim>\<open>INVALID_SIGNATURE\<close> whatever the check, and as error text the
  message of the first failing check, one of four. A request with valid segments, no
  \<^verbatim>\<open>auth_token\<close> cookie (or an empty one) and a path that is not public makes no upstream call
  either, and is answered 401 \<^verbatim>\<open>Unauthorized\<close>, \<^verbatim>\<open>No auth token found\<close>, or 500 when an
  earlier step of the proxy failed. A request that cannot be signed, the secret being unset,
  makes no upstream call and is answered 500.
\<close>

theorem rejected_locally:
  "(validatePathSegments pathSegments = Inl error \<longrightarrow>
      (\<exists>message.
         proxyRequest P env now fetch request method pathSegments
           = (NextResponse_json
                (JObj [(''error'', JStr message), (''code'', JStr ''INVALID_SIGNATURE'')]) 500, [])
         \<and> error = BffException INVALID_SIGNATURE message
         \<and> message \<in> set [''Invalid path: empty segment'', ''Invalid path: traversal not allowed'',
                            ''Invalid path: absolute URLs not allowed'',
                            ''Invalid path: forbidden characters'']))
   \<and> (validatePathSegments pathSegments = Inr ()
        \<and> or_else (nr_cookies request ''auth_token'') [] = []
        \<and> \<not> isPublicRoute (''api/v1/'' @ join ''/'' pathSegments) \<longrightarrow>
      snd (proxyRequest P env now fetch request method pathSegments) = []
      \<and> (fst (proxyRequest P env now fetch request method pathSegments)
            = NextResponse_json
                (JObj [(''error'', JStr ''Unauthorized''), (''message'', JStr ''No auth token found'')])
                401
          \<or> res_status (fst (proxyRequest P env now fetch request method pathSegments)) = 500))
   \<and> (BFF_SECRET env = [] \<longrightarrow>
      snd (proxyRequest P env now fetch request method pathSegments) = []
      \<and> res_status (fst (proxyRequest P env now fetch request method pathSegments)) = 500)"
proof (intro conjI; rule impI)
  assume e: "validatePathSegments pathSegments = Inl error"
  from validatePathSegments_throws [OF e] proxyRequest_path_failure [OF e]
  show "\<exists>message.
         proxyRequest P env now fetch request method pathSegments
           = (NextResponse_json
                (JObj [(''error'', JStr message), (''code'', JStr ''INVALID_SIGNATURE'')]) 500, [])
         \<and> error = BffException INVALID_SIGNATURE message
         \<and> message \<in> set [''Invalid path: empty segment'', ''Invalid path: traversal not allowed'',
                            ''Invalid path: absolute URLs not allowed'',
                            ''Invalid path: forbidden characters'']"
    by (auto simp: catch_response_def code_string_def)
next
  assume a: "validatePathSegments pathSegments = Inr ()
        \<and> or_else (nr_cookies request ''auth_token'') [] = []
        \<and> \<not> isPublicRoute (''api/v1/'' @ join ''/'' pathSegments)"
  from proxyRequest_cases [of P env now fetch request "method" pathSegments] a
  show "snd (proxyRequest P env now fetch request method pathSegments) = []
      \<and> (fst (proxyRequest P env now fetch request method pathSegments)
            = NextResponse_json
                (JObj [(''error'', JStr ''Unauthorized''), (''message'', JStr ''No auth token found'')])
                401
          \<or> res_status (fst (proxyRequest P env now fetch request method pathSegments)) = 500)"
    by (auto simp: forward_unauthorized catch_response_status)
next
  assume "BFF_SECRET env = []"
  from proxyRequest_unconfigured [OF this, of P now fetch request "method" pathSegments]
  show "snd (proxyRequest P env now fetch request method pathSegments) = []
      \<and> res_status (fst (proxyRequest P env now fetch request method pathSegments)) = 500"
    by (auto simp: catch_response_status)
qed

theorem rejected_locally_witness:
  "validatePathSegments [''http:'', [], ''evil.com'']
     = Inl (BffException INVALID_SIGNATURE ''Invalid path: forbidden characters'')
   \<and> proxyRequest reference sample_env 1700000000123 sample_upstream anonymous_get ''GET''
        [''http:'', [], ''evil.com'']
      = (NextResponse_json
           (JObj [(''error'', JStr ''Invalid path: forbidden characters''),
                  (''code'', JStr ''INVALID_SIGNATURE'')]) 500, [])
   \<and> validatePathSegments [''users'', ''42'', ''roles''] = Inr ()
   \<and> or_else (nr_cookies anonymous_get ''auth_token'') [] = []
   \<and> snd (proxyRequest reference sample_env 1700000000123 sample_upstream anonymous_get ''GET''
        [''users'', ''42'', ''roles'']) = []
   \<and> BFF_SECRET unconfigured_env = []
   \<and> snd (proxyRequest reference unconfigured_env 1700000000123 sample_upstream token_get ''GET''
        [''users'']) = []
   \<and> res_status (fst (proxyRequest reference unconfigured_env 1700000000123 sample_upstream
        token_get ''GET'' [''users''])) = 500"
proof -
  have a: "validatePathSegments [''http:'', [], ''evil.com'']
     = Inl (BffException INVALID_SIGNATURE ''Invalid path: forbidden characters'')"
    by (simp add: startsWith_def SAFE_PATH_SEGMENT_def safe_char_def)
  have b: "validatePathSegments [''users'', ''42'', ''roles''] = Inr ()
     \<and> or_else (nr_cookies anonymous_get ''auth_token'') [] = []
     \<and> \<not> isPublicRoute (''api/v1/'' @ join ''/'' [''users'', ''42'', ''roles''])"
    by (simp add: startsWith_def SAFE_PATH_SEGMENT_def safe_char_def anonymous_get_def or_else_def
        isPublicRoute_def publicRoutes_def)
  from rejected_locally [where pathSegments = "[''http:'', [], ''evil.com'']"
      and error = "BffException INVALID_SIGNATURE ''Invalid path: forbidden characters''"
      and P = reference and env = sample_env and now = 1700000000123 and fetch = sample_upstream
      and request = anonymous_get, of "''GET''"] a
  have 1: "proxyRequest reference sample_env 1700000000123 sample_upstream anonymous_get ''GET''
        [''http:'', [], ''evil.com'']
      = (NextResponse_json
           (JObj [(''error'', JStr ''Invalid path: forbidden characters''),
                  (''code'', JStr ''INVALID_SIGNATURE'')]) 500, [])"
    by auto
  from rejected_locally [where pathSegments = "[''users'', ''42'', ''roles'']"
      and P = reference and env = sample_env and now = 1700000000123 and fetch = sample_upstream
      and request = anonymous_get, of _ "''GET''"] b
  have 2: "snd (proxyRequest reference sample_env 1700000000123 sample_upstream anonymous_get ''GET''
        [''users'', ''42'', ''roles'']) = []"
    by blast
  have c: "BFF_SECRET unconfigured_env = []"
    by (simp add: unconfigured_env_def sample_env_def BFF_SECRET_def or_else_def)
  from rejected_locally [where pathSegments = "[''users'']" and P = reference
      and env = unconfigured_env and now = 1700000000123 and fetch = sample_upstream
      and request = token_get, of _ "''GET''"] c
  have 3: "snd (proxyRequest reference unconfigured_env 1700000000123 sample_upstream token_get
        ''GET'' [''users'']) = []
     \<and> res_status (fst (proxyRequest reference unconfigured_env 1700000000123 sample_upstream
        token_get ''GET'' [''users''])) = 500"
    by blast
  from a b 1 2 c 3 show ?thesis by blast
qed

text \<open>
  C8, as the claim states it, fails in three ways. With no cookie, the path
  \<^verbatim>\<open>api/v1/auth/loginx\<close>, which is none of the three public routes, is forwarded and answered
  200, since the routes are matched as prefixes. With no cookie and the segments \<^verbatim>\<open>[".."]\<close> the
  answer is 500, not 401, since the Path Guard comes first. And a cookie that is present with
  the empty value is not attached: the public path \<^verbatim>\<open>api/v1/auth/providers\<close> is forwarded with
  no \<^verbatim>\<open>Authorization\<close> header.
\<close>

theorem credential_stage_counterexample:
  "nr_cookies anonymous_get ''auth_token'' = None
   \<and> ''api/v1/auth/loginx'' \<notin> set publicRoutes
   \<and> res_status (fst (proxyRequest reference sample_env 1700000000123 sample_upstream anonymous_get
                        ''GET'' [''auth'', ''loginx''])) = 200
   \<and> map fr_path (snd (proxyRequest reference sample_env 1700000000123 sample_upstream anonymous_get
                          ''GET'' [''auth'', ''loginx''])) = [''api/v1/auth/loginx'']
   \<and> res_status (fst (proxyRequest reference sample_env 1700000000123 sample_upstream anonymous_get
                        ''GET'' [''..''])) = 500
   \<and> nr_cookies empty_cookie_get ''auth_token'' = Some []
   \<and> map (\<lambda>options. map_of (fr_headers options) ''Authorization'')
         (snd (proxyRequest reference sample_env 1700000000123 sample_upstream empty_cookie_get
                 ''GET'' [''auth'', ''providers''])) = [None]"
  by (simp add: proxy_eval relay_frame empty_cookie_get_def dec.simps digit_char_def Let_def
      reference_def ref_hmac_sha256_def ref_sha256_def)

text \<open>
  C8, amended. For every inbound request whose segments pass the Path Guard, whose upstream URL
  has the configured host and for which the secret is configured: with no \<^verbatim>\<open>auth_token\<close>
  cookie, or an empty one, and a path that begins with none of \<^verbatim>\<open>api/v1/auth/login\<close>,
  \<^verbatim>\<open>api/v1/auth/register\<close>, \<^verbatim>\<open>api/v1/auth/providers\<close>, the proxy answers 401 and makes no
  upstream call; with no cookie, or an empty one, and a path that begins with one of them, it
  makes one upstream call, with the content headers and the three HMAC headers and no
  \<^verbatim>\<open>Authorization\<close> header; with a cookie of a non-empty value it makes one upstream call with
  these headers and \<^verbatim>\<open>Authorization: Bearer\<close> followed by the value.
\<close>

theorem credential_stage:
  assumes "validatePathSegments pathSegments = Inr ()"
    and "URL_host P (''api/v1/'' @ join ''/'' pathSegments) (Some (LARAVEL_API_URL env)) = Some host"
    and "URL_host P (LARAVEL_API_URL env) None = Some host"
    and "BFF_SECRET env \<noteq> []"
  shows
    "(or_else (nr_cookies request ''auth_token'') [] = []
        \<and> \<not> isPublicRoute (''api/v1/'' @ join ''/'' pathSegments) \<longrightarrow>
      proxyRequest P env now fetch request method pathSegments
        = (NextResponse_json
             (JObj [(''error'', JStr ''Unauthorized''), (''message'', JStr ''No auth token found'')])
             401, []))
     \<and> (or_else (nr_cookies request ''auth_token'') [] = []
          \<and> isPublicRoute (''api/v1/'' @ join ''/'' pathSegments) \<longrightarrow>
        (\<exists>options.
           snd (proxyRequest P env now fetch request method pathSegments) = [options]
           \<and> fr_path options = ''api/v1/'' @ join ''/'' pathSegments
           \<and> fr_headers options
               = [(''Content-Type'', ''application/json''), (''Accept'', ''application/json''),
                  (''X-BFF-Id'', BFF_ID env), (''X-BFF-Timestamp'', dec (now div 1000)),
                  (''X-BFF-Signature'',
                   hmac_sha256 P (BFF_SECRET env)
                     (dec (now div 1000) @ '':'' @ method @ '':'' @ ''api/v1/''
                        @ join ''/'' pathSegments @ '':'' @ hashBody P (Some (read_body request))))]
           \<and> map_of (fr_headers options) ''Authorization'' = None))
     \<and> (nr_cookies request ''auth_token'' = Some token \<and> token \<noteq> [] \<longrightarrow>
        (\<exists>options.
           snd (proxyRequest P env now fetch request method pathSegments) = [options]
           \<and> fr_path options = ''api/v1/'' @ join ''/'' pathSegments
           \<and> fr_headers options
               = [(''Content-Type'', ''application/json''), (''Accept'', ''application/json''),
                  (''X-BFF-Id'', BFF_ID env), (''X-BFF-Timestamp'', dec (now div 1000)),
                  (''X-BFF-Signature'',
                   hmac_sha256 P (BFF_SECRET env)
                     (dec (now div 1000) @ '':'' @ method @ '':'' @ ''api/v1/''
                        @ join ''/'' pathSegments @ '':'' @ hashBody P (Some (read_body request)))),
                  (''Authorization'', ''Bearer '' @ token)]
           \<and> map_of (fr_headers options) ''Authorization'' = Some (''Bearer '' @ token)))
     \<and> (isPublicRoute (''api/v1/'' @ join ''/'' pathSegments) \<longleftrightarrow>
          startsWith (''api/v1/'' @ join ''/'' pathSegments) ''api/v1/auth/login''
          \<or> startsWith (''api/v1/'' @ join ''/'' pathSegments) ''api/v1/auth/register''
          \<or> startsWith (''api/v1/'' @ join ''/'' pathSegments) ''api/v1/auth/providers'')"
proof -
  let ?path = "''api/v1/'' @ join ''/'' pathSegments"
  from proxyRequest_forward [OF assms(1-3) generateSignature_configured [OF assms(4)]]
  have fw: "proxyRequest P env now fetch request method pathSegments
              = forward P env fetch request method ?path
                  \<lparr> X_BFF_Id = BFF_ID env,
                    X_BFF_Timestamp = dec (now div 1000),
                    X_BFF_Signature =
                      hmac_sha256 P (BFF_SECRET env)
                        (dec (now div 1000) @ '':'' @ method @ '':'' @ ?path @ '':''
                           @ hashBody P (Some (read_body request))),
                    normalizedBody =
                      (case Some (read_body request) of
                         None \<Rightarrow> None
                       | Some b \<Rightarrow>
                           if b = JNull then None else Some (JSON_stringify (sortObjectKeys b))) \<rparr>"
    for fetch .
  show ?thesis
    unfolding fw
    by (auto simp: forward_def Let_def send_calls or_else_def isPublicRoute_iff
        simp del: sortObjectKeys.simps JSON_stringify.simps)
qed

theorem credential_stage_witness:
  "validatePathSegments [''users''] = Inr ()
   \<and> URL_host reference (''api/v1/'' @ join ''/'' [''users'']) (Some (LARAVEL_API_URL sample_env))
       = Some ''localhost:8000''
   \<and> URL_host reference (LARAVEL_API_URL sample_env) None = Some ''localhost:8000''
   \<and> BFF_SECRET sample_env \<noteq> []
   \<and> proxyRequest reference sample_env 1700000000123 sample_upstream anonymous_get ''GET'' [''users'']
       = (NextResponse_json
            (JObj [(''error'', JStr ''Unauthorized''), (''message'', JStr ''No auth token found'')])
            401, [])
   \<and> map (\<lambda>options. map_of (fr_headers options) ''Authorization'')
        (snd (proxyRequest reference sample_env 1700000000123 sample_upstream token_get ''GET''
                [''users''])) = [Some ''Bearer tok'']"
proof -
  have v: "validatePathSegments [''users''] = Inr ()"
    by (simp add: startsWith_def SAFE_PATH_SEGMENT_def safe_char_def)
  have u1: "URL_host reference (''api/v1/'' @ join ''/'' [''users''])
              (Some (LARAVEL_API_URL sample_env)) = Some ''localhost:8000''"
    and u2: "URL_host reference (LARAVEL_API_URL sample_env) None = Some ''localhost:8000''"
    by (simp_all add: reference_def ref_URL_host_def host_of_def startsWith_def LARAVEL_API_URL_def
        sample_env_def or_else_def)
  have s: "BFF_SECRET sample_env \<noteq> []"
    by (simp add: sample_secret)
  have anon: "or_else (nr_cookies anonymous_get ''auth_token'') [] = []
     \<and> \<not> isPublicRoute (''api/v1/'' @ join ''/'' [''users''])"
    by (simp add: anonymous_get_def or_else_def isPublicRoute_def publicRoutes_def startsWith_def)
  have tok: "nr_cookies token_get ''auth_token'' = Some ''tok'' \<and> ''tok'' \<noteq> []"
    by (simp add: token_get_def anonymous_get_def)
  from credential_stage [OF v u1 u2 s, where request = anonymous_get] anon
  have 1: "proxyRequest reference sample_env 1700000000123 sample_upstream anonymous_get ''GET''
             [''users'']
       = (NextResponse_json
            (JObj [(''error'', JStr ''Unauthorized''), (''message'', JStr ''No auth token found'')])
            401, [])"
    by blast
  from credential_stage [OF v u1 u2 s, where request = token_get and token = "''tok''"
      and now = 1700000000123 and fetch = sample_upstream, of "''GET''"] tok
  have 2: "map (\<lambda>options. map_of (fr_headers options) ''Authorization'')
        (snd (proxyRequest reference sample_env 1700000000123 sample_upstream token_get ''GET''
                [''users''])) = [Some ''Bearer tok'']"
    by auto
  from v u1 u2 s 1 2 show ?thesis by blast
qed





end
